theory Spec2Isabelle
  imports Complex_Main "HOL-Library.Word"
begin

section \<open>SOSE data access (observations/sose_data.py)\<close>

text \<open>
  The module is a thin layer over xarray, NumPy, pandas and xgcm. Its two loaders only open
  and merge files. The embedding keeps the four functions that compute as they are written
  and gives the library calls they make an explicit meaning:
  \<^item> field values are Python/NumPy floats, idealised as \<^typ>\<open>real\<close>;
  \<^item> coordinate labels carry their NumPy dtype, because \<open>get_times\<close> depends on it;
  \<^item> every exception is a value of \<open>error\<close>, and a fallible step returns \<open>error + 'a\<close>.
\<close>

subsection \<open>Exceptions\<close>

datatype error =
    KeyError | AttributeError | ValueError | TypeError | IndexError
  | ZeroDivisionError | InvalidIndexError

definition bindE :: "error + 'a \<Rightarrow> ('a \<Rightarrow> error + 'b) \<Rightarrow> error + 'b" where
  "bindE m f = (case m of Inl e \<Rightarrow> Inl e | Inr x \<Rightarrow> f x)"

text \<open>A list comprehension whose body may raise: the first exception ends it.\<close>

fun mapE :: "('a \<Rightarrow> error + 'b) \<Rightarrow> 'a list \<Rightarrow> error + 'b list" where
  "mapE f [] = Inr []"
| "mapE f (x # xs) =
     (case f x of
        Inl e \<Rightarrow> Inl e
      | Inr y \<Rightarrow> (case mapE f xs of Inl e \<Rightarrow> Inl e | Inr ys \<Rightarrow> Inr (y # ys)))"

subsection \<open>NumPy scalars on a coordinate axis\<close>

text \<open>
  A coordinate label is a float, a \<open>datetime64[ns]\<close> (nanoseconds since
  1970-01-01T00:00:00, the resolution xarray decodes to) or a \<open>timedelta64[ns]\<close>.
  Both time types are 64-bit signed integers whose least value is the marker NaT.
\<close>

datatype np_value = Float64 real | Datetime64 "64 word" | Timedelta64 "64 word"

definition NaT :: "64 word" where
  "NaT = 2 ^ 63"

text \<open>
  \<open>dt - np.datetime64("1970-01-01T00:00:00Z")\<close>. NumPy resolves the subtraction by the
  operand types: only a datetime minus a datetime is a timedelta; a timedelta or a number
  minus a datetime has no loop and raises \<open>TypeError\<close>. The literal is tick 0.
\<close>

fun minus_epoch :: "np_value \<Rightarrow> error + 64 word" where
  "minus_epoch (Datetime64 w) = Inr (if w = NaT then NaT else w - 0)"
| "minus_epoch (Timedelta64 w) = Inl TypeError"
| "minus_epoch (Float64 x) = Inl TypeError"

text \<open>
  \<open>td / np.timedelta64(1, "s")\<close> for a \<open>timedelta64[ns]\<close>: the float number of seconds,
  or nan (\<open>None\<close>) for NaT.
\<close>

definition per_second :: "64 word \<Rightarrow> real option" where
  "per_second td = (if td = NaT then None else Some (real_of_int (sint td) / 10 ^ 9))"

subsection \<open>\<open>datetime.utcfromtimestamp\<close>\<close>

text \<open>
  A naive \<open>datetime\<close> is an instant with microsecond resolution. It is kept as the pair
  the C implementation computes before the calendar fields are filled in: whole seconds
  since 1970-01-01T00:00:00 and the microsecond within the second. The order of Python's
  \<open>datetime\<close> is the order of instants, the lexicographic order of the pair.
\<close>

record datetime =
  epoch_second :: int
  microsecond :: int

definition datetime_le :: "datetime \<Rightarrow> datetime \<Rightarrow> bool" where
  "datetime_le a b \<longleftrightarrow>
     epoch_second a < epoch_second b
     \<or> (epoch_second a = epoch_second b \<and> microsecond a \<le> microsecond b)"

definition epoch :: datetime where
  "epoch = \<lparr>epoch_second = 0, microsecond = 0\<rparr>"

definition modf_intpart :: "real \<Rightarrow> int" where
  "modf_intpart x = (if 0 \<le> x then \<lfloor>x\<rfloor> else \<lceil>x\<rceil>)"

definition round_half_even :: "real \<Rightarrow> int" where
  "round_half_even y =
     (let n = \<lfloor>y\<rfloor>; d = y - of_int n
      in if d < 1 / 2 then n
         else if 1 / 2 < d then n + 1
         else if even n then n else n + 1)"

text \<open>Seconds of 0001-01-01T00:00:00 and of 9999-12-31T23:59:59, the range of \<open>datetime\<close>.\<close>

definition min_second :: int where
  "min_second = - 62135596800"

definition max_second :: int where
  "max_second = 253402300799"

text \<open>
  The float is split into its integral and fractional part, the fraction is rounded
  half-even to microseconds, and a carry or borrow is moved into the seconds. nan raises
  \<open>ValueError\<close>, an instant outside years 1 to 9999 raises too.
\<close>

definition utcfromtimestamp :: "real option \<Rightarrow> error + datetime" where
  "utcfromtimestamp t =
     (case t of
        None \<Rightarrow> Inl ValueError
      | Some x \<Rightarrow>
          (let intpart = modf_intpart x;
               us = round_half_even ((x - of_int intpart) * 10 ^ 6);
               (s, u) = (if 10 ^ 6 \<le> us then (intpart + 1, us - 10 ^ 6)
                         else if us < 0 then (intpart - 1, us + 10 ^ 6)
                         else (intpart, us))
           in if s < min_second \<or> max_second < s then Inl ValueError
              else Inr \<lparr>epoch_second = s, microsecond = u\<rparr>))"



subsection \<open>Datasets\<close>

text \<open>
  A variable is a field over named dimensions: \<open>var_data v pos\<close> is its value at the
  position \<open>pos d\<close> along each dimension \<open>d\<close> of \<open>var_dims v\<close>. A dataset has one index
  (the labels of a dimension coordinate) per dimension, shared by all its variables, and
  named variables; the grid fields of the SOSE files (\<open>hFacC\<close>, \<open>drF\<close>, ...) are among them.
\<close>

record variable =
  var_dims :: "string list"
  var_data :: "(string \<Rightarrow> nat) \<Rightarrow> real"

record dataset =
  indexes :: "string \<rightharpoonup> np_value list"
  variables :: "string \<rightharpoonup> variable"

subsection \<open>Time axis decoder\<close>

text \<open>
  \<^verbatim>\<open>
  def get_times(ds):
      ts = ds.time.values
      ts = [datetime.utcfromtimestamp((dt - np.datetime64("1970-01-01T00:00:00Z"))
                                      / np.timedelta64(1, "s")) for dt in ts]
      return ts
  \<close>
\<close>

definition decode_time :: "np_value \<Rightarrow> error + datetime" where
  "decode_time dt = bindE (minus_epoch dt) (\<lambda>td. utcfromtimestamp (per_second td))"

definition get_times :: "dataset \<Rightarrow> error + datetime list" where
  "get_times ds =
     (case indexes ds ''time'' of
        None \<Rightarrow> Inl AttributeError
      | Some ts \<Rightarrow> mapE decode_time ts)"


subsection \<open>Labelled arrays\<close>

text \<open>
  Taking a variable out of a dataset gives a labelled array: the variable with the index
  of each of its dimensions. Asking for the name of a dimension gives its labels as a
  one-dimensional array. \<open>ds[name]\<close> raises \<open>KeyError\<close> for an unknown name, \<open>ds.name\<close>
  raises \<open>AttributeError\<close>. Every dimension of the SOSE files has an index; a dimension
  without one is outside the model, and selecting along it is refused.
\<close>

record data_array =
  dims :: "string list"
  coords :: "string \<rightharpoonup> np_value list"
  data :: "(string \<Rightarrow> nat) \<Rightarrow> real"

fun label_number :: "np_value \<Rightarrow> real" where
  "label_number (Float64 x) = x"
| "label_number (Datetime64 w) = real_of_int (sint w)"
| "label_number (Timedelta64 w) = real_of_int (sint w)"

definition lookup :: "error \<Rightarrow> dataset \<Rightarrow> string \<Rightarrow> error + data_array" where
  "lookup missing ds name =
     (case variables ds name of
        Some v \<Rightarrow>
          Inr \<lparr>dims = var_dims v, coords = indexes ds |` set (var_dims v), data = var_data v\<rparr>
      | None \<Rightarrow>
          (case indexes ds name of
             Some ls \<Rightarrow>
               Inr \<lparr>dims = [name], coords = [name \<mapsto> ls],
                    data = (\<lambda>pos. label_number (ls ! pos name))\<rparr>
           | None \<Rightarrow> Inl missing))"

definition getitem :: "dataset \<Rightarrow> string \<Rightarrow> error + data_array" where
  "getitem = lookup KeyError"

definition getattr :: "dataset \<Rightarrow> string \<Rightarrow> error + data_array" where
  "getattr = lookup AttributeError"

text \<open>
  \<open>slice(start, stop)\<close> applied to an axis of length \<open>n\<close>: a negative bound counts from the
  end, and both bounds are clipped to the axis, so a slice never raises.
\<close>

datatype slice = Slice int int

definition clip_index :: "nat \<Rightarrow> int \<Rightarrow> nat" where
  "clip_index n i = nat (if i < 0 then max (i + int n) 0 else min i (int n))"

fun slice_list :: "slice \<Rightarrow> 'a list \<Rightarrow> 'a list" where
  "slice_list (Slice start stop) xs =
     (let lo = clip_index (length xs) start; hi = clip_index (length xs) stop
      in take (hi - lo) (drop lo xs))"

fun slice_start :: "slice \<Rightarrow> nat \<Rightarrow> nat" where
  "slice_start (Slice start stop) n = clip_index n start"

text \<open>\<open>a.isel(d=slice)\<close>: positional selection along one dimension.\<close>

definition isel :: "data_array \<Rightarrow> string \<Rightarrow> slice \<Rightarrow> error + data_array" where
  "isel a d sl =
     (if d \<notin> set (dims a) then Inl ValueError
      else case coords a d of
        None \<Rightarrow> Inl ValueError
      | Some ls \<Rightarrow>
          Inr (a\<lparr>coords := (coords a)(d \<mapsto> slice_list sl ls),
                 data := (\<lambda>pos. data a (pos(d := pos d + slice_start sl (length ls))))\<rparr>))"

text \<open>
  Label lookup with \<open>method="nearest"\<close>. pandas answers for a unique, monotonic index of
  numbers: the label at the least distance from the target, the larger label on a tie. An
  index with a repeated label raises \<open>InvalidIndexError\<close>, one that is neither increasing
  nor decreasing raises \<open>ValueError\<close>, an empty one has no label to give (\<open>KeyError\<close>), and
  a target of another type than the labels is not comparable with them (\<open>TypeError\<close>).
  Labels and target are compared as numbers, a time by its tick count.
\<close>

definition closer :: "real \<Rightarrow> real \<Rightarrow> real \<Rightarrow> bool" where
  "closer x a b \<longleftrightarrow> \<bar>a - x\<bar> < \<bar>b - x\<bar> \<or> (\<bar>a - x\<bar> = \<bar>b - x\<bar> \<and> b < a)"

fun nearest_position :: "real \<Rightarrow> real list \<Rightarrow> nat" where
  "nearest_position x [] = 0"
| "nearest_position x (l # ls) =
     (if ls = [] then 0
      else let k = nearest_position x ls
           in if closer x (ls ! k) l then Suc k else 0)"

datatype dtype = float64 | datetime64 | timedelta64

fun dtype_of :: "np_value \<Rightarrow> dtype" where
  "dtype_of (Float64 x) = float64"
| "dtype_of (Datetime64 w) = datetime64"
| "dtype_of (Timedelta64 w) = timedelta64"

definition get_nearest :: "np_value list \<Rightarrow> np_value \<Rightarrow> error + nat" where
  "get_nearest labels target =
     (if \<exists>l\<in>set labels. dtype_of l \<noteq> dtype_of target then Inl TypeError
      else let ls = map label_number labels
           in if \<not> distinct ls then Inl InvalidIndexError
              else if \<not> (sorted ls \<or> sorted (rev ls)) then Inl ValueError
              else if ls = [] then Inl KeyError
              else Inr (nearest_position (label_number target) ls))"

text \<open>
  \<open>a.sel(d=x, method="nearest")\<close> drops the dimension \<open>d\<close> and keeps the values at the
  nearest label; with several keywords the dimensions are resolved one after the other.
\<close>

definition sel_nearest :: "data_array \<Rightarrow> string \<Rightarrow> np_value \<Rightarrow> error + data_array" where
  "sel_nearest a d x =
     (if d \<notin> set (dims a) then Inl KeyError
      else case coords a d of
        None \<Rightarrow> Inl KeyError
      | Some ls \<Rightarrow>
          bindE (get_nearest ls x) (\<lambda>i.
            Inr \<lparr>dims = removeAll d (dims a), coords = (coords a)(d := None),
                 data = (\<lambda>pos. data a (pos(d := i)))\<rparr>))"

fun sel :: "data_array \<Rightarrow> (string \<times> np_value) list \<Rightarrow> error + data_array" where
  "sel a [] = Inr a"
| "sel a ((d, x) # kw) = bindE (sel_nearest a d x) (\<lambda>a'. sel a' kw)"

text \<open>
  \<open>a.values\<close>: the NumPy array of the values, one axis per dimension in the order of
  \<open>dims\<close>. \<open>item r ix\<close> is the entry at the index tuple \<open>ix\<close>.
\<close>

record ndarray =
  shape :: "nat list"
  item :: "nat list \<Rightarrow> real"

fun axis_of :: "'a \<Rightarrow> 'a list \<Rightarrow> nat" where
  "axis_of d [] = 0"
| "axis_of d (x # xs) = (if x = d then 0 else Suc (axis_of d xs))"

definition dim_size :: "data_array \<Rightarrow> string \<Rightarrow> nat" where
  "dim_size a d = (case coords a d of None \<Rightarrow> 0 | Some ls \<Rightarrow> length ls)"

definition position :: "string list \<Rightarrow> nat list \<Rightarrow> string \<Rightarrow> nat" where
  "position ds ix = (\<lambda>d. ix ! axis_of d ds)"

definition values_of :: "data_array \<Rightarrow> ndarray" where
  "values_of a =
     \<lparr>shape = map (dim_size a) (dims a), item = (\<lambda>ix. data a (position (dims a) ix))\<rparr>"


subsection \<open>Point extractor\<close>

text \<open>
  \<^verbatim>\<open>
  def get_scalar_time_series(ds, var, lat, lon, day_offset, days):
      time_slice = slice(day_offset, day_offset + days)
      with ProgressBar():
          if var in ["UVEL", "oceTAUX"]:
              time_series = ds[var].isel(time=time_slice).sel(XG=lon, YC=lat, method="nearest").values
          elif var in ["VVEL", "oceTAUY"]:
              time_series = ds[var].isel(time=time_slice).sel(XC=lon, YG=lat, method="nearest").values
          else:
              time_series = ds[var].isel(time=time_slice).sel(XC=lon, YC=lat, method="nearest").values
      return time_series
  \<close>
  \<open>get_profile_time_series\<close> has the same body; the two differ in the text of the log
  line, which is not part of the result. \<open>lat\<close> and \<open>lon\<close> are Python floats.
\<close>

definition get_scalar_time_series ::
  "dataset \<Rightarrow> string \<Rightarrow> real \<Rightarrow> real \<Rightarrow> int \<Rightarrow> int \<Rightarrow> error + ndarray" where
  "get_scalar_time_series ds var lat lon day_offset days =
     (let time_slice = Slice day_offset (day_offset + days)
      in if var \<in> set [''UVEL'', ''oceTAUX''] then
           bindE (getitem ds var) (\<lambda>a.
           bindE (isel a ''time'' time_slice) (\<lambda>b.
           bindE (sel b [(''XG'', Float64 lon), (''YC'', Float64 lat)]) (\<lambda>c.
           Inr (values_of c))))
         else if var \<in> set [''VVEL'', ''oceTAUY''] then
           bindE (getitem ds var) (\<lambda>a.
           bindE (isel a ''time'' time_slice) (\<lambda>b.
           bindE (sel b [(''XC'', Float64 lon), (''YG'', Float64 lat)]) (\<lambda>c.
           Inr (values_of c))))
         else
           bindE (getitem ds var) (\<lambda>a.
           bindE (isel a ''time'' time_slice) (\<lambda>b.
           bindE (sel b [(''XC'', Float64 lon), (''YC'', Float64 lat)]) (\<lambda>c.
           Inr (values_of c)))))"

definition get_profile_time_series ::
  "dataset \<Rightarrow> string \<Rightarrow> real \<Rightarrow> real \<Rightarrow> int \<Rightarrow> int \<Rightarrow> error + ndarray" where
  "get_profile_time_series ds var lat lon day_offset days =
     (let time_slice = Slice day_offset (day_offset + days)
      in if var \<in> set [''UVEL'', ''oceTAUX''] then
           bindE (getitem ds var) (\<lambda>a.
           bindE (isel a ''time'' time_slice) (\<lambda>b.
           bindE (sel b [(''XG'', Float64 lon), (''YC'', Float64 lat)]) (\<lambda>c.
           Inr (values_of c))))
         else if var \<in> set [''VVEL'', ''oceTAUY''] then
           bindE (getitem ds var) (\<lambda>a.
           bindE (isel a ''time'' time_slice) (\<lambda>b.
           bindE (sel b [(''XC'', Float64 lon), (''YG'', Float64 lat)]) (\<lambda>c.
           Inr (values_of c))))
         else
           bindE (getitem ds var) (\<lambda>a.
           bindE (isel a ''time'' time_slice) (\<lambda>b.
           bindE (sel b [(''XC'', Float64 lon), (''YC'', Float64 lat)]) (\<lambda>c.
           Inr (values_of c)))))"


subsection \<open>Arithmetic on labelled arrays\<close>

text \<open>
  A Python number times an array scales every value. A binary operation on two arrays
  first aligns them: on a dimension they share, equal indexes are kept as they are; other
  indexes are replaced by their intersection, in the order of the left operand, and both
  arrays are reindexed to it, which xarray refuses (\<open>ValueError\<close>) for an index with a
  repeated label. The result is broadcast over the dimensions of the left operand, followed
  by the new ones of the right operand. The SOSE files give every dimension an index; an
  array with a dimension that has none is outside this model and treated as misaligned.
\<close>

definition scale :: "real \<Rightarrow> data_array \<Rightarrow> data_array" where
  "scale c a = a\<lparr>data := (\<lambda>pos. c * data a pos)\<rparr>"

definition join_labels :: "np_value list \<Rightarrow> np_value list \<Rightarrow> error + np_value list" where
  "join_labels la lb =
     (if la = lb then Inr la
      else if \<not> distinct la \<or> \<not> distinct lb then Inl ValueError
      else Inr (filter (\<lambda>l. l \<in> set lb) la))"

text \<open>Where the \<open>i\<close>-th label of the new index sits in the old one.\<close>

definition locate :: "np_value list \<Rightarrow> np_value list \<Rightarrow> nat \<Rightarrow> nat" where
  "locate old new i = (if new = old then i else axis_of (new ! i) old)"

definition reindex_array :: "data_array \<Rightarrow> string \<Rightarrow> np_value list \<Rightarrow> data_array" where
  "reindex_array a d new =
     (case coords a d of
        None \<Rightarrow> a
      | Some old \<Rightarrow>
          a\<lparr>coords := (coords a)(d \<mapsto> new),
            data := (\<lambda>pos. data a (pos(d := locate old new (pos d))))\<rparr>)"

fun align :: "string list \<Rightarrow> data_array \<Rightarrow> data_array \<Rightarrow> error + data_array \<times> data_array" where
  "align [] a b = Inr (a, b)"
| "align (d # ds) a b =
     (case (coords a d, coords b d) of
        (Some la, Some lb) \<Rightarrow>
          bindE (join_labels la lb) (\<lambda>j. align ds (reindex_array a d j) (reindex_array b d j))
      | _ \<Rightarrow> Inl ValueError)"

definition broadcast ::
  "(real \<Rightarrow> real \<Rightarrow> real) \<Rightarrow> data_array \<Rightarrow> data_array \<Rightarrow> data_array" where
  "broadcast f a b =
     \<lparr>dims = dims a @ filter (\<lambda>d. d \<notin> set (dims a)) (dims b),
      coords = (\<lambda>d. if d \<in> set (dims a) then coords a d
                     else if d \<in> set (dims b) then coords b d else None),
      data = (\<lambda>pos. f (data a pos) (data b pos))\<rparr>"

definition binary_op ::
  "(real \<Rightarrow> real \<Rightarrow> real) \<Rightarrow> data_array \<Rightarrow> data_array \<Rightarrow> error + data_array" where
  "binary_op f a b =
     bindE (align (filter (\<lambda>d. d \<in> set (dims b)) (dims a)) a b) (\<lambda>(a', b').
       Inr (broadcast f a' b'))"

text \<open>\<open>a / b\<close> on Python numbers raises for a zero divisor.\<close>

definition py_truediv :: "real \<Rightarrow> real \<Rightarrow> error + real" where
  "py_truediv a b = (if b = 0 then Inl ZeroDivisionError else Inr (a / b))"

subsection \<open>Dataset objects\<close>

text \<open>
  A Python name holds a reference to a dataset object. The store lists the objects; a
  reference is a position in it, and a reference the program holds is always inside the
  store. A step of the program takes the store and returns it with a result or an
  exception.
\<close>

type_synonym store = "dataset list"

type_synonym 'a prog = "store \<Rightarrow> store \<times> (error + 'a)"

definition returnS :: "'a \<Rightarrow> 'a prog" where
  "returnS x = (\<lambda>st. (st, Inr x))"

definition liftS :: "error + 'a \<Rightarrow> 'a prog" where
  "liftS m = (\<lambda>st. (st, m))"

definition bindS :: "'a prog \<Rightarrow> ('a \<Rightarrow> 'b prog) \<Rightarrow> 'b prog" where
  "bindS m f = (\<lambda>st. case m st of (st', Inl e) \<Rightarrow> (st', Inl e) | (st', Inr x) \<Rightarrow> f x st')"

definition deref :: "nat \<Rightarrow> dataset prog" where
  "deref r = (\<lambda>st. (st, Inr (st ! r)))"

definition new_object :: "dataset \<Rightarrow> nat prog" where
  "new_object d = (\<lambda>st. (st @ [d], Inr (length st)))"

text \<open>\<open>ds[name] = a\<close> changes the object \<open>ds\<close> refers to.\<close>

definition setitem :: "nat \<Rightarrow> string \<Rightarrow> data_array \<Rightarrow> unit prog" where
  "setitem r name a =
     (\<lambda>st. (st[r := (st ! r)\<lparr>variables :=
                (variables (st ! r))(name \<mapsto> \<lparr>var_dims = dims a, var_data = data a\<rparr>)\<rparr>],
            Inr ()))"

text \<open>
  \<open>ds.d\<close> for a dimension coordinate, and \<open>ds.reindex(d=new)\<close>, which returns a new dataset
  and leaves \<open>ds\<close> as it is: every variable over \<open>d\<close> is rearranged to the new labels. An
  index with a repeated label cannot be reindexed. (A new label that the old index does not
  have would be filled with nan; the solver asks for the old labels in reverse.)
\<close>

definition get_index :: "dataset \<Rightarrow> string \<Rightarrow> error + np_value list" where
  "get_index ds d = (case indexes ds d of None \<Rightarrow> Inl AttributeError | Some ls \<Rightarrow> Inr ls)"

definition reindex_var :: "string \<Rightarrow> np_value list \<Rightarrow> np_value list \<Rightarrow> variable \<Rightarrow> variable" where
  "reindex_var d old new v =
     (if d \<in> set (var_dims v)
      then v\<lparr>var_data := (\<lambda>pos. var_data v (pos(d := locate old new (pos d))))\<rparr>
      else v)"

definition reindex :: "dataset \<Rightarrow> string \<Rightarrow> np_value list \<Rightarrow> error + dataset" where
  "reindex ds d new =
     (case indexes ds d of
        None \<Rightarrow> Inl ValueError
      | Some old \<Rightarrow>
          if new = old then Inr ds
          else if \<not> distinct old then Inl ValueError
          else Inr \<lparr>indexes = (indexes ds)(d \<mapsto> new),
                    variables = (\<lambda>name. map_option (reindex_var d old new) (variables ds name))\<rparr>)"

definition first_label :: "np_value list \<Rightarrow> error + np_value" where
  "first_label ls = (case ls of [] \<Rightarrow> Inl IndexError | l # _ \<Rightarrow> Inr l)"

subsection \<open>The grid library\<close>

text \<open>
  xgcm is not part of the module. Its three entry points are parameters of the solver:
  building the grid from a dataset, the metrics and the periodic axes; the derivative of an
  array along an axis; the cumulative integral along an axis with a boundary rule.
\<close>

record 'g xgcm =
  xgcm_Grid :: "dataset \<Rightarrow> (string list \<times> string list) list \<Rightarrow> string list \<Rightarrow> error + 'g"
  grid_derivative :: "'g \<Rightarrow> data_array \<Rightarrow> string \<Rightarrow> error + data_array"
  grid_cumint :: "'g \<Rightarrow> data_array \<Rightarrow> string \<Rightarrow> string \<Rightarrow> error + data_array"

definition metrics :: "(string list \<times> string list) list" where
  "metrics =
     [([''X''], [''dxC'', ''dxG'']),
      ([''Y''], [''dyC'', ''dyG'']),
      ([''Z''], [''drW'', ''drS'', ''drC'']),
      ([''X'', ''Y''], [''rA'', ''rA'', ''rAs'', ''rAw''])]"


subsection \<open>Geostrophic solver\<close>

text \<open>
  \<^verbatim>\<open>
  def compute_geostrophic_velocities(ds, lat, lon, day_offset, days, zF, \<alpha>, \<beta>, g, f):
      ds = ds.reindex(Z=ds.Z[::-1], Zl=ds.Zl[::-1])
      time_slice = slice(day_offset, day_offset + days)
      U =  ds.UVEL.isel(time=time_slice)
      V =  ds.VVEL.isel(time=time_slice)
      \<Theta> = ds.THETA.isel(time=time_slice)
      S =  ds.SALT.isel(time=time_slice)
      ds["drW"] = ds.hFacW * ds.drF
      ds["drS"] = ds.hFacS * ds.drF
      ds["drC"] = ds.hFacC * ds.drF
      metrics = {...}
      grid = xgcm.Grid(ds, metrics=metrics, periodic=('X', 'Y'))
      \<Sigma>dz_d\<Theta>dx = grid.cumint(grid.derivative(\<Theta>, 'X'), 'Z', boundary="extend")
      \<Sigma>dz_d\<Theta>dy = grid.cumint(grid.derivative(\<Theta>, 'Y'), 'Z', boundary="extend")
      \<Sigma>dz_dSdx = grid.cumint(grid.derivative(S, 'X'), 'Z', boundary="extend")
      \<Sigma>dz_dSdy = grid.cumint(grid.derivative(S, 'Y'), 'Z', boundary="extend")
      \<Sigma>dz_dBdx = g * (\<alpha> * \<Sigma>dz_d\<Theta>dx - \<beta> * \<Sigma>dz_dSdx)
      \<Sigma>dz_dBdy = g * (\<alpha> * \<Sigma>dz_d\<Theta>dy - \<beta> * \<Sigma>dz_dSdy)
      z_bottom = ds.Z.values[0]
      U_d = U.sel(XG=lon, YC=lat, Z=z_bottom, method="nearest")
      V_d = V.sel(XC=lon, YG=lat, Z=z_bottom, method="nearest")
      with ProgressBar():
          U_geo = (U_d - 1/f * \<Sigma>dz_dBdy).sel(XC=lon, YG=lat, method="nearest").values
          V_geo = (V_d + 1/f * \<Sigma>dz_dBdx).sel(XG=lon, YC=lat, method="nearest").values
      return U_geo, V_geo
  \<close>
  The first assignment binds the local name \<open>ds\<close> to the dataset that \<open>reindex\<close> returns, a
  new object; \<open>ds0\<close> below is the reference the caller passed. The scalars \<open>\<alpha>\<close>, \<open>\<beta>\<close>, \<open>g\<close>
  and \<open>f\<close> are Python floats. The function is written in two parts: \<open>solver_setup\<close> is the
  body up to the four cumulative integrals, which come from the grid library, and
  \<open>compute_geostrophic_velocities\<close> goes on from there.
\<close>

definition reversed_vertical :: "dataset \<Rightarrow> error + dataset" where
  "reversed_vertical ds =
     bindE (get_index ds ''Z'') (\<lambda>z.
     bindE (get_index ds ''Zl'') (\<lambda>zl.
     bindE (reindex ds ''Z'' (rev z)) (\<lambda>d.
     reindex d ''Zl'' (rev zl))))"

definition time_window :: "nat \<Rightarrow> string \<Rightarrow> slice \<Rightarrow> data_array prog" where
  "time_window ds name time_slice =
     bindS (deref ds) (\<lambda>d.
     liftS (bindE (getattr d name) (\<lambda>a. isel a ''time'' time_slice)))"

definition attach_thickness :: "nat \<Rightarrow> string \<Rightarrow> string \<Rightarrow> unit prog" where
  "attach_thickness ds name hFac =
     bindS (deref ds) (\<lambda>d.
     bindS (liftS (bindE (getattr d hFac) (\<lambda>h.
                   bindE (getattr d ''drF'') (\<lambda>drF.
                   binary_op (*) h drF)))) (\<lambda>dr.
     setitem ds name dr))"

definition cumint_derivative ::
  "'g xgcm \<Rightarrow> 'g \<Rightarrow> data_array \<Rightarrow> string \<Rightarrow> error + data_array" where
  "cumint_derivative lib grid a axis =
     bindE (grid_derivative lib grid a axis) (\<lambda>da. grid_cumint lib grid da ''Z'' ''extend'')"

record solver_fields =
  local_ds :: nat
  fld_U :: data_array
  fld_V :: data_array
  sum_dz_dTdx :: data_array
  sum_dz_dTdy :: data_array
  sum_dz_dSdx :: data_array
  sum_dz_dSdy :: data_array

definition solver_setup :: "'g xgcm \<Rightarrow> nat \<Rightarrow> int \<Rightarrow> int \<Rightarrow> solver_fields prog" where
  "solver_setup lib ds0 day_offset days =
     bindS (deref ds0) (\<lambda>d0.
     bindS (liftS (reversed_vertical d0)) (\<lambda>d1.
     bindS (new_object d1) (\<lambda>ds.
     let time_slice = Slice day_offset (day_offset + days) in
     bindS (time_window ds ''UVEL'' time_slice) (\<lambda>U.
     bindS (time_window ds ''VVEL'' time_slice) (\<lambda>V.
     bindS (time_window ds ''THETA'' time_slice) (\<lambda>\<Theta>.
     bindS (time_window ds ''SALT'' time_slice) (\<lambda>S.
     bindS (attach_thickness ds ''drW'' ''hFacW'') (\<lambda>_.
     bindS (attach_thickness ds ''drS'' ''hFacS'') (\<lambda>_.
     bindS (attach_thickness ds ''drC'' ''hFacC'') (\<lambda>_.
     bindS (deref ds) (\<lambda>d.
     bindS (liftS (xgcm_Grid lib d metrics [''X'', ''Y''])) (\<lambda>grid.
     bindS (liftS (cumint_derivative lib grid \<Theta> ''X'')) (\<lambda>\<Sigma>dz_d\<Theta>dx.
     bindS (liftS (cumint_derivative lib grid \<Theta> ''Y'')) (\<lambda>\<Sigma>dz_d\<Theta>dy.
     bindS (liftS (cumint_derivative lib grid S ''X'')) (\<lambda>\<Sigma>dz_dSdx.
     bindS (liftS (cumint_derivative lib grid S ''Y'')) (\<lambda>\<Sigma>dz_dSdy.
     returnS \<lparr>local_ds = ds, fld_U = U, fld_V = V,
              sum_dz_dTdx = \<Sigma>dz_d\<Theta>dx, sum_dz_dTdy = \<Sigma>dz_d\<Theta>dy,
              sum_dz_dSdx = \<Sigma>dz_dSdx, sum_dz_dSdy = \<Sigma>dz_dSdy\<rparr>))))))))))))))))"

text \<open>\<open>g * (\<alpha> * \<Sigma>\<Theta> - \<beta> * \<Sigma>S)\<close>, the linear equation of state.\<close>

definition buoyancy_integral ::
  "real \<Rightarrow> real \<Rightarrow> real \<Rightarrow> data_array \<Rightarrow> data_array \<Rightarrow> error + data_array" where
  "buoyancy_integral g \<alpha> \<beta> \<Sigma>\<Theta> \<Sigma>S =
     bindE (binary_op (-) (scale \<alpha> \<Sigma>\<Theta>) (scale \<beta> \<Sigma>S)) (\<lambda>d. Inr (scale g d))"

text \<open>
  \<open>(U_d - 1/f * \<Sigma>B).sel(..., method="nearest").values\<close>, with \<open>+\<close> for \<open>V\<close>. Python
  evaluates \<open>1/f\<close> before the product and the difference.
\<close>

definition thermal_wind ::
  "(real \<Rightarrow> real \<Rightarrow> real) \<Rightarrow> data_array \<Rightarrow> real \<Rightarrow> data_array \<Rightarrow> (string \<times> np_value) list
     \<Rightarrow> error + ndarray" where
  "thermal_wind op ref f \<Sigma>B kw =
     bindE (py_truediv 1 f) (\<lambda>r.
     bindE (binary_op op ref (scale r \<Sigma>B)) (\<lambda>a.
     bindE (sel a kw) (\<lambda>s.
     Inr (values_of s))))"

definition compute_geostrophic_velocities ::
  "'g xgcm \<Rightarrow> nat \<Rightarrow> real \<Rightarrow> real \<Rightarrow> int \<Rightarrow> int \<Rightarrow> real list \<Rightarrow> real \<Rightarrow> real \<Rightarrow> real \<Rightarrow> real
     \<Rightarrow> (ndarray \<times> ndarray) prog" where
  "compute_geostrophic_velocities lib ds0 lat lon day_offset days zF \<alpha> \<beta> g f =
     bindS (solver_setup lib ds0 day_offset days) (\<lambda>F.
     bindS (liftS (buoyancy_integral g \<alpha> \<beta> (sum_dz_dTdx F) (sum_dz_dSdx F))) (\<lambda>\<Sigma>dz_dBdx.
     bindS (liftS (buoyancy_integral g \<alpha> \<beta> (sum_dz_dTdy F) (sum_dz_dSdy F))) (\<lambda>\<Sigma>dz_dBdy.
     bindS (deref (local_ds F)) (\<lambda>d.
     bindS (liftS (bindE (get_index d ''Z'') first_label)) (\<lambda>z_bottom.
     bindS (liftS (sel (fld_U F)
                    [(''XG'', Float64 lon), (''YC'', Float64 lat), (''Z'', z_bottom)])) (\<lambda>U_d.
     bindS (liftS (sel (fld_V F)
                    [(''XC'', Float64 lon), (''YG'', Float64 lat), (''Z'', z_bottom)])) (\<lambda>V_d.
     bindS (liftS (thermal_wind (-) U_d f \<Sigma>dz_dBdy
                    [(''XC'', Float64 lon), (''YG'', Float64 lat)])) (\<lambda>U_geo.
     bindS (liftS (thermal_wind (+) V_d f \<Sigma>dz_dBdx
                    [(''XG'', Float64 lon), (''YC'', Float64 lat)])) (\<lambda>V_geo.
     returnS (U_geo, V_geo))))))))))"


subsection \<open>Notions used to state the properties\<close>

text \<open>
  The order of the values on an axis (NaT compares false with everything), the instant a
  number of microseconds after another, and the elapsed time of an axis entry since the
  epoch, to the microsecond a \<open>datetime\<close> can hold.
\<close>

fun np_le :: "np_value \<Rightarrow> np_value \<Rightarrow> bool" where
  "np_le (Float64 x) (Float64 y) = (x \<le> y)"
| "np_le (Datetime64 a) (Datetime64 b) = (a \<noteq> NaT \<and> b \<noteq> NaT \<and> sint a \<le> sint b)"
| "np_le (Timedelta64 a) (Timedelta64 b) = (a \<noteq> NaT \<and> b \<noteq> NaT \<and> sint a \<le> sint b)"
| "np_le _ _ = False"

definition plus_microseconds :: "datetime \<Rightarrow> int \<Rightarrow> datetime" where
  "plus_microseconds d n =
     \<lparr>epoch_second = epoch_second d + (microsecond d + n) div 10 ^ 6,
      microsecond = (microsecond d + n) mod 10 ^ 6\<rparr>"

fun elapsed_microseconds :: "np_value \<Rightarrow> int" where
  "elapsed_microseconds (Datetime64 w) = round_half_even (real_of_int (sint w) / 10 ^ 3)"
| "elapsed_microseconds (Timedelta64 w) = round_half_even (real_of_int (sint w) / 10 ^ 3)"
| "elapsed_microseconds (Float64 x) = round_half_even (x * 10 ^ 6)"

definition us_total :: "datetime \<Rightarrow> int" where
  "us_total d = epoch_second d * 10 ^ 6 + microsecond d"


text \<open>
  The coordinate pair of a variable by its placement on the grid, the selection of the
  nearest point on a given pair, a well-formed coordinate axis (numbers, strictly
  increasing or strictly decreasing), and what it means for a position to hold the
  nearest label, which on either side of the axis is its end.
\<close>

definition horizontal_coordinates :: "string \<Rightarrow> string \<times> string" where
  "horizontal_coordinates var =
     (if var = ''UVEL'' \<or> var = ''oceTAUX'' then (''XG'', ''YC'')
      else if var = ''VVEL'' \<or> var = ''oceTAUY'' then (''XC'', ''YG'')
      else (''XC'', ''YC''))"

definition nearest_on ::
  "string \<Rightarrow> string \<Rightarrow> dataset \<Rightarrow> string \<Rightarrow> real \<Rightarrow> real \<Rightarrow> int \<Rightarrow> int \<Rightarrow> error + ndarray" where
  "nearest_on xcoord ycoord ds var lat lon day_offset days =
     bindE (getitem ds var) (\<lambda>a.
     bindE (isel a ''time'' (Slice day_offset (day_offset + days))) (\<lambda>b.
     bindE (sel_nearest b xcoord (Float64 lon)) (\<lambda>c.
     bindE (sel_nearest c ycoord (Float64 lat)) (\<lambda>d.
     Inr (values_of d)))))"

definition grid_axis :: "np_value list \<Rightarrow> bool" where
  "grid_axis ls \<longleftrightarrow>
     ls \<noteq> [] \<and> (\<forall>l\<in>set ls. dtype_of l = float64)
     \<and> (sorted_wrt (<) (map label_number ls) \<or> sorted_wrt (>) (map label_number ls))"

definition is_nearest :: "np_value list \<Rightarrow> real \<Rightarrow> nat \<Rightarrow> bool" where
  "is_nearest ls x i \<longleftrightarrow>
     i < length ls
     \<and> (\<forall>k<length ls. \<bar>label_number (ls ! i) - x\<bar> \<le> \<bar>label_number (ls ! k) - x\<bar>)
     \<and> ((\<forall>l\<in>set ls. label_number l \<le> x) \<longrightarrow> (\<forall>l\<in>set ls. label_number l \<le> label_number (ls ! i)))
     \<and> ((\<forall>l\<in>set ls. x \<le> label_number l) \<longrightarrow> (\<forall>l\<in>set ls. label_number (ls ! i) \<le> label_number l))"

definition extracted :: "dataset \<Rightarrow> variable \<Rightarrow> string \<Rightarrow> string \<Rightarrow> np_value list \<Rightarrow> slice \<Rightarrow> nat \<Rightarrow> nat \<Rightarrow> data_array" where
  "extracted ds v xd yd ts sl i j =
     \<lparr>dims = removeAll yd (removeAll xd (var_dims v)),
      coords = (indexes ds |` set (var_dims v))(''time'' \<mapsto> slice_list sl ts, xd := None, yd := None),
      data = (\<lambda>pos. var_data v (pos(yd := j, xd := i,
                 ''time'' := pos ''time'' + slice_start sl (length ts))))\<rparr>"

definition result_shape :: "error + ndarray \<Rightarrow> nat list option" where
  "result_shape r = (case r of Inl e \<Rightarrow> None | Inr a \<Rightarrow> Some (shape a))"

definition result_error :: "error + ndarray \<Rightarrow> error option" where
  "result_error r = (case r of Inl e \<Rightarrow> Some e | Inr a \<Rightarrow> None)"

definition result_item :: "error + ndarray \<Rightarrow> nat list \<Rightarrow> real option" where
  "result_item r ix = (case r of Inl e \<Rightarrow> None | Inr a \<Rightarrow> Some (item a ix))"


text \<open>
  Two arrays are aligned when every dimension they share carries the same labels in both,
  so that a binary operation combines them position by position. The fields the solver
  gets from the grid library are aligned when the temperature and salinity integrals of
  each direction are, and each velocity is with the integrals it is combined with.
  \<open>combined\<close> has the dimensions and labels of a reference velocity broadcast against a
  pair of integrals, \<open>at_point\<close> is the position of an entry of the result with the two
  horizontal positions fixed, and \<open>geostrophic\<close> is the thermal-wind formula at that
  position.
\<close>

definition aligned :: "data_array \<Rightarrow> data_array \<Rightarrow> bool" where
  "aligned a b \<longleftrightarrow>
     (\<forall>d\<in>set (dims a) \<inter> set (dims b). \<exists>ls. coords a d = Some ls \<and> coords b d = Some ls)"

definition fields_aligned :: "solver_fields \<Rightarrow> bool" where
  "fields_aligned F \<longleftrightarrow>
     aligned (sum_dz_dTdx F) (sum_dz_dSdx F) \<and> aligned (sum_dz_dTdy F) (sum_dz_dSdy F)
     \<and> aligned (fld_U F) (sum_dz_dTdy F) \<and> aligned (fld_U F) (sum_dz_dSdy F)
     \<and> aligned (fld_V F) (sum_dz_dTdx F) \<and> aligned (fld_V F) (sum_dz_dSdx F)"

definition at_point :: "string \<Rightarrow> nat \<Rightarrow> string \<Rightarrow> nat \<Rightarrow> string list \<Rightarrow> nat list \<Rightarrow> string \<Rightarrow> nat" where
  "at_point xd i yd j ds ix = (position (removeAll yd (removeAll xd ds)) ix)(yd := j, xd := i)"

definition combined :: "data_array \<Rightarrow> data_array \<Rightarrow> data_array \<Rightarrow> data_array" where
  "combined ref T S = broadcast (\<lambda>x y. x) ref (broadcast (\<lambda>x y. x) T S)"

definition geostrophic ::
  "(real \<Rightarrow> real \<Rightarrow> real) \<Rightarrow> real \<Rightarrow> real \<Rightarrow> real \<Rightarrow> real \<Rightarrow> data_array \<Rightarrow> data_array \<Rightarrow> data_array
     \<Rightarrow> string \<Rightarrow> nat \<Rightarrow> string \<Rightarrow> nat \<Rightarrow> nat list \<Rightarrow> real" where
  "geostrophic op g \<alpha> \<beta> f ref T S xd i yd j ix =
     (let p = at_point xd i yd j (dims (combined ref T S)) ix
      in op (data ref p) (1 / f * (g * (\<alpha> * data T p - \<beta> * data S p))))"

text \<open>
  A step of the program frames the first \<open>n\<close> objects of the store when it leaves them
  as they are, whatever it returns or raises, and its result satisfies \<open>Q\<close>.
\<close>

definition frames :: "nat \<Rightarrow> 'a prog \<Rightarrow> ('a \<Rightarrow> bool) \<Rightarrow> bool" where
  "frames n p Q \<longleftrightarrow>
     (\<forall>st st' r. n \<le> length st \<and> p st = (st', r) \<longrightarrow>
        n \<le> length st' \<and> take n st' = take n st \<and> (\<forall>x. r = Inr x \<longrightarrow> Q x))"



subsection \<open>Example datasets\<close>

text \<open>
  A surface dataset with a decoded daily time axis, the same axis kept as elapsed time,
  and a small three-dimensional dataset on a 2 x 2 grid with two levels (surface first)
  and three days, whose fields encode the position they are read at.
\<close>

definition ds_daily :: dataset where
  "ds_daily = \<lparr>indexes = [''time'' \<mapsto> [Datetime64 0, Datetime64 86400000000000]],
               variables = Map.empty\<rparr>"


definition grid_index :: "string \<rightharpoonup> np_value list" where
  "grid_index =
     [''time'' \<mapsto> [Float64 0, Float64 86400, Float64 172800],
      ''Z'' \<mapsto> [Float64 (- 5), Float64 (- 15)],
      ''Zl'' \<mapsto> [Float64 0, Float64 (- 10)],
      ''YC'' \<mapsto> [Float64 (- 60), Float64 (- 59)],
      ''YG'' \<mapsto> [Float64 (- 121 / 2), Float64 (- 119 / 2)],
      ''XC'' \<mapsto> [Float64 10, Float64 11],
      ''XG'' \<mapsto> [Float64 (19 / 2), Float64 (21 / 2)]]"

definition field :: "string list \<Rightarrow> real \<Rightarrow> variable" where
  "field ds c = \<lparr>var_dims = ds,
      var_data = (\<lambda>pos. c + real (pos ''time'') + 10 * real (pos ''Z'')
                       + 100 * real (pos (ds ! 2)) + 1000 * real (pos (ds ! 3)))\<rparr>"

definition sose3d :: dataset where
  "sose3d = \<lparr>indexes = grid_index,
     variables =
       [''UVEL'' \<mapsto> field [''time'', ''Z'', ''YC'', ''XG''] 1,
        ''VVEL'' \<mapsto> field [''time'', ''Z'', ''YG'', ''XC''] 2,
        ''THETA'' \<mapsto> field [''time'', ''Z'', ''YC'', ''XC''] 3,
        ''SALT'' \<mapsto> field [''time'', ''Z'', ''YC'', ''XC''] 4,
        ''hFacW'' \<mapsto> \<lparr>var_dims = [''Z'', ''YC'', ''XG''], var_data = (\<lambda>pos. 1)\<rparr>,
        ''hFacS'' \<mapsto> \<lparr>var_dims = [''Z'', ''YG'', ''XC''], var_data = (\<lambda>pos. 1)\<rparr>,
        ''hFacC'' \<mapsto> \<lparr>var_dims = [''Z'', ''YC'', ''XC''], var_data = (\<lambda>pos. 1)\<rparr>,
        ''drF'' \<mapsto> \<lparr>var_dims = [''Z''], var_data = (\<lambda>pos. 10)\<rparr>]\<rparr>"



text \<open>
  A stand-in for the grid library on that dataset: the periodic backward difference with
  unit spacing, moved from the cell centres to the cell edges, and the cumulative sum from
  the first level with a layer thickness of 10, moved from the level centres to the level
  edges. The example run is the solver on the three-dimensional dataset, the only object
  of the store, at 59.2 S, 10.6 E, for two days from the second.
\<close>

definition difference :: "dataset \<Rightarrow> data_array \<Rightarrow> string \<Rightarrow> error + data_array" where
  "difference grid a axis =
     (let c = (if axis = ''X'' then ''XC'' else ''YC'');
          e = (if axis = ''X'' then ''XG'' else ''YG'')
      in if c \<notin> set (dims a) then Inl ValueError
         else case indexes grid e of
           None \<Rightarrow> Inl KeyError
         | Some ls \<Rightarrow>
             Inr \<lparr>dims = map (\<lambda>d. if d = c then e else d) (dims a),
                  coords = (coords a)(c := None, e \<mapsto> ls),
                  data = (\<lambda>pos. data a (pos(c := pos e))
                               - data a (pos(c := (pos e + length ls - 1) mod length ls)))\<rparr>)"

definition cumulative_sum :: "dataset \<Rightarrow> data_array \<Rightarrow> string \<Rightarrow> string \<Rightarrow> error + data_array" where
  "cumulative_sum grid a axis boundary =
     (if ''Z'' \<notin> set (dims a) then Inl ValueError
      else case indexes grid ''Zl'' of
        None \<Rightarrow> Inl KeyError
      | Some ls \<Rightarrow>
          Inr \<lparr>dims = map (\<lambda>d. if d = ''Z'' then ''Zl'' else d) (dims a),
               coords = (coords a)(''Z'' := None, ''Zl'' \<mapsto> ls),
               data = (\<lambda>pos. sum_list (map (\<lambda>k. 10 * data a (pos(''Z'' := k))) [0..<pos ''Zl'']))\<rparr>)"

definition difference_grid :: "dataset xgcm" where
  "difference_grid =
     \<lparr>xgcm_Grid = (\<lambda>ds m p. Inr ds), grid_derivative = difference, grid_cumint = cumulative_sum\<rparr>"

definition example_setup :: "store \<times> (error + solver_fields)" where
  "example_setup = solver_setup difference_grid 0 1 2 [sose3d]"

definition example_run :: "real \<Rightarrow> real \<Rightarrow> real \<Rightarrow> real \<Rightarrow> store \<times> (error + ndarray \<times> ndarray)" where
  "example_run \<alpha> \<beta> g f =
     compute_geostrophic_velocities difference_grid 0 (- 296 / 5) (53 / 5) 1 2 [] \<alpha> \<beta> g f [sose3d]"

definition example_store :: store where
  "example_store = fst example_setup"

definition example_fields :: solver_fields where
  "example_fields = projr (snd example_setup)"

definition returned :: "store \<times> (error + 'a) \<Rightarrow> 'a option" where
  "returned p = (case snd p of Inl e \<Rightarrow> None | Inr x \<Rightarrow> Some x)"

definition raised :: "store \<times> (error + 'a) \<Rightarrow> error option" where
  "raised p = (case snd p of Inl e \<Rightarrow> Some e | Inr x \<Rightarrow> None)"



section \<open>Time axis decoder\<close>

lemma mapE_Inr:
  "mapE f xs = Inr ys \<Longrightarrow> length ys = length xs \<and> (\<forall>i<length xs. f (xs ! i) = Inr (ys ! i))"
proof (induction xs arbitrary: ys)
  case Nil then show ?case by simp
next
  case (Cons x xs)
  then show ?case
    by (auto split: sum.splits simp: nth_Cons split: nat.splits)
qed

lemma rhe_shift: "even k \<Longrightarrow> round_half_even (y + of_int k) = round_half_even y + k"
  by (simp add: round_half_even_def Let_def)

lemma rhe_of_int: "round_half_even (of_int k) = k"
  by (simp add: round_half_even_def Let_def)

lemma rhe_mono:
  assumes "y \<le> z"
  shows "round_half_even y \<le> round_half_even z"
proof (cases "\<lfloor>y\<rfloor> = \<lfloor>z\<rfloor>")
  case True
  with assms show ?thesis
    unfolding round_half_even_def Let_def by (auto; linarith)
next
  case False
  with assms have lt: "\<lfloor>y\<rfloor> + 1 \<le> \<lfloor>z\<rfloor>"
    using floor_mono [of y z] by linarith
  have "round_half_even y \<le> \<lfloor>y\<rfloor> + 1"
    unfolding round_half_even_def Let_def by auto
  moreover have "\<lfloor>z\<rfloor> \<le> round_half_even z"
    unfolding round_half_even_def Let_def by auto
  ultimately show ?thesis using lt by linarith
qed

lemma modf_frac: "\<bar>x - of_int (modf_intpart x)\<bar> < 1"
  unfolding modf_intpart_def by (auto; linarith)

lemma utc_char:
  assumes "utcfromtimestamp (Some x) = Inr d"
  shows "0 \<le> microsecond d \<and> microsecond d < 10 ^ 6 \<and> us_total d = round_half_even (x * 10 ^ 6)"
proof -
  define ip where "ip = modf_intpart x"
  define us where "us = round_half_even ((x - of_int ip) * 10 ^ 6)"
  have fr: "\<bar>x - of_int ip\<bar> < 1" unfolding ip_def by (rule modf_frac)
  have lo: "of_int (- (10 ^ 6)) \<le> (x - of_int ip) * 10 ^ 6"
    and hi: "(x - of_int ip) * 10 ^ 6 \<le> of_int (10 ^ 6)"
    using fr by auto
  from rhe_mono [OF lo] rhe_mono [OF hi]
  have b: "- (10 ^ 6) \<le> us" "us \<le> 10 ^ 6"
    unfolding us_def rhe_of_int by auto
  have "(x - of_int ip) * 10 ^ 6 = x * 10 ^ 6 + of_int (- (ip * 10 ^ 6))"
    by (simp add: algebra_simps)
  then have tot: "us = round_half_even (x * 10 ^ 6) - ip * 10 ^ 6"
    unfolding us_def using rhe_shift [of "- (ip * 10 ^ 6)" "x * 10 ^ 6"] by simp
  have res: "(if (if 10 ^ 6 \<le> us then ip + 1 else if us < 0 then ip - 1 else ip) < min_second
                  \<or> max_second < (if 10 ^ 6 \<le> us then ip + 1 else if us < 0 then ip - 1 else ip)
               then Inl ValueError
               else Inr \<lparr>epoch_second = (if 10 ^ 6 \<le> us then ip + 1 else if us < 0 then ip - 1 else ip),
                         microsecond = (if 10 ^ 6 \<le> us then us - 10 ^ 6 else if us < 0 then us + 10 ^ 6 else us)\<rparr>)
             = Inr d"
    using assms unfolding utcfromtimestamp_def Let_def ip_def us_def
    by (simp split: if_splits)
  then have d: "epoch_second d = (if 10 ^ 6 \<le> us then ip + 1 else if us < 0 then ip - 1 else ip)"
    "microsecond d = (if 10 ^ 6 \<le> us then us - 10 ^ 6 else if us < 0 then us + 10 ^ 6 else us)"
    by (auto split: if_splits)
  show ?thesis
    unfolding us_total_def d using b tot by auto
qed

lemma modf_bounds: "\<bar>real_of_int (modf_intpart x)\<bar> \<le> \<bar>x\<bar>"
  unfolding modf_intpart_def by (auto; linarith)

lemma utc_in_range:
  assumes "\<bar>x\<bar> \<le> 10 ^ 10"
  shows "\<exists>d. utcfromtimestamp (Some x) = Inr d"
proof -
  have "\<bar>real_of_int (modf_intpart x)\<bar> \<le> 10 ^ 10"
    using modf_bounds [of x] assms by linarith
  then have "real_of_int \<bar>modf_intpart x\<bar> \<le> real_of_int (10 ^ 10)"
    by simp
  then have "\<bar>modf_intpart x\<bar> \<le> 10 ^ 10"
    by (simp only: of_int_le_iff)
  then show ?thesis
    unfolding utcfromtimestamp_def Let_def min_second_def max_second_def
    by (auto split: if_splits)
qed

lemma datetime_eq_total:
  assumes "0 \<le> microsecond d" "microsecond d < 10 ^ 6"
  shows "d = plus_microseconds epoch (us_total d)"
  using assms unfolding plus_microseconds_def epoch_def us_total_def
  by (cases d) (simp add: div_pos_pos_trivial)

lemma sint64_seconds: "\<bar>real_of_int (sint (w :: 64 word)) / 10 ^ 9\<bar> \<le> 10 ^ 10"
proof -
  have "- (2 ^ 63) \<le> sint w" "sint w < 2 ^ 63"
    using sint_ge [of w] sint_lt [of w] by simp_all
  then have "\<bar>sint w\<bar> \<le> 10 ^ 19" by simp
  then have "real_of_int \<bar>sint w\<bar> \<le> real_of_int (10 ^ 19)"
    by (simp only: of_int_le_iff)
  then have "\<bar>real_of_int (sint w)\<bar> \<le> 10 ^ 19"
    by (simp only: of_int_abs of_int_power of_int_numeral)
  then have "\<bar>real_of_int (sint w)\<bar> / 10 ^ 9 \<le> 10 ^ 19 / 10 ^ 9"
    by (rule divide_right_mono) simp
  then show ?thesis by (simp only: abs_divide) simp
qed

lemma decode_datetime64:
  assumes "w \<noteq> NaT"
  shows "decode_time (Datetime64 w) = Inr (plus_microseconds epoch (elapsed_microseconds (Datetime64 w)))"
proof -
  obtain d where d: "utcfromtimestamp (Some (real_of_int (sint w) / 10 ^ 9)) = Inr d"
    using utc_in_range [OF sint64_seconds [of w]] by blast
  from utc_char [OF d] have "d = plus_microseconds epoch (us_total d)"
    and "us_total d = round_half_even (real_of_int (sint w) / 10 ^ 3)"
    using datetime_eq_total [of d] by simp_all
  with d assms show ?thesis
    by (simp add: decode_time_def bindE_def per_second_def)
qed

lemma decode_time_Inr:
  assumes "decode_time v = Inr d"
  shows "\<exists>w. v = Datetime64 w \<and> w \<noteq> NaT"
  using assms
  by (cases v) (auto simp: decode_time_def bindE_def per_second_def utcfromtimestamp_def split: if_splits)

lemma plus_microseconds_mono:
  assumes "m \<le> n"
  shows "datetime_le (plus_microseconds epoch m) (plus_microseconds epoch n)"
proof -
  have "m div 10 ^ 6 \<le> n div 10 ^ 6" using assms by (simp add: zdiv_mono1)
  moreover have "m div 10 ^ 6 = n div 10 ^ 6 \<Longrightarrow> m mod 10 ^ 6 \<le> n mod 10 ^ 6"
    using assms by (metis add_le_cancel_left mult_div_mod_eq)
  ultimately show ?thesis
    unfolding datetime_le_def plus_microseconds_def epoch_def by auto
qed

lemma decode_time_mono:
  assumes "decode_time a = Inr da" "decode_time b = Inr db" "np_le a b"
  shows "datetime_le da db"
proof -
  from decode_time_Inr [OF assms(1)] obtain wa where a: "a = Datetime64 wa" "wa \<noteq> NaT" by blast
  from decode_time_Inr [OF assms(2)] obtain wb where b: "b = Datetime64 wb" "wb \<noteq> NaT" by blast
  from assms(3) a b have "sint wa \<le> sint wb" by simp
  then have "real_of_int (sint wa) \<le> real_of_int (sint wb)"
    by (simp only: of_int_le_iff)
  then have "real_of_int (sint wa) / 10 ^ 3 \<le> real_of_int (sint wb) / 10 ^ 3"
    by (rule divide_right_mono) simp
  then have "elapsed_microseconds a \<le> elapsed_microseconds b"
    unfolding a b elapsed_microseconds.simps by (rule rhe_mono)
  then have "datetime_le (plus_microseconds epoch (elapsed_microseconds a))
                 (plus_microseconds epoch (elapsed_microseconds b))"
    by (rule plus_microseconds_mono)
  moreover have "da = plus_microseconds epoch (elapsed_microseconds a)"
    using assms(1) decode_datetime64 [OF a(2)] unfolding a by simp
  moreover have "db = plus_microseconds epoch (elapsed_microseconds b)"
    using assms(2) decode_datetime64 [OF b(2)] unfolding b by simp
  ultimately show ?thesis by simp
qed


lemma mapE_first_Inl: "f x = Inl e \<Longrightarrow> mapE f (x # xs) = Inl e"
  by simp




lemma get_times_ds_daily:
  "get_times ds_daily = Inr [epoch, \<lparr>epoch_second = 86400, microsecond = 0\<rparr>]"
  by (simp add: get_times_def ds_daily_def decode_time_def bindE_def per_second_def NaT_def
      utcfromtimestamp_def modf_intpart_def round_half_even_def min_second_def max_second_def
      epoch_def Let_def)





text \<open>
  Claim C9. Whenever \<open>get_times\<close> succeeds, its result has the length of the time axis, the
  entry at each position is the decoding of the axis entry at that position, and a
  non-decreasing axis gives a non-decreasing sequence of timestamps.
\<close>

theorem get_times_length_order:
  assumes "get_times ds = Inr out"
  shows "\<exists>ts. indexes ds ''time'' = Some ts \<and> length out = length ts
            \<and> (\<forall>i<length ts. decode_time (ts ! i) = Inr (out ! i))
            \<and> (sorted_wrt np_le ts \<longrightarrow> sorted_wrt datetime_le out)"
proof -
  from assms obtain ts where ts: "indexes ds ''time'' = Some ts" and m: "mapE decode_time ts = Inr out"
    by (auto simp: get_times_def split: option.splits)
  from mapE_Inr [OF m] have len: "length out = length ts"
    and el: "\<forall>i<length ts. decode_time (ts ! i) = Inr (out ! i)" by simp_all
  have "sorted_wrt datetime_le out" if s: "sorted_wrt np_le ts"
    unfolding sorted_wrt_iff_nth_less
  proof (intro allI impI)
    fix i j assume ij: "i < j" "j < length out"
    then have "np_le (ts ! i) (ts ! j)"
      using s len by (simp add: sorted_wrt_iff_nth_less)
    moreover have "decode_time (ts ! i) = Inr (out ! i)" "decode_time (ts ! j) = Inr (out ! j)"
      using el ij len by simp_all
    ultimately show "datetime_le (out ! i) (out ! j)"
      using decode_time_mono by blast
  qed
  with ts len el show ?thesis by blast
qed

theorem get_times_length_order_witness:
  "get_times ds_daily = Inr [epoch, \<lparr>epoch_second = 86400, microsecond = 0\<rparr>]
   \<and> sorted_wrt np_le [Datetime64 0, Datetime64 86400000000000]
   \<and> sorted_wrt datetime_le [epoch, \<lparr>epoch_second = 86400, microsecond = 0\<rparr>]"
proof -
  have s: "sorted_wrt np_le [Datetime64 0, Datetime64 86400000000000]"
    by (simp add: NaT_def)
  have i: "indexes ds_daily ''time'' = Some [Datetime64 0, Datetime64 86400000000000]"
    by (simp add: ds_daily_def)
  from get_times_length_order [OF get_times_ds_daily] s i
  have "sorted_wrt datetime_le [epoch, \<lparr>epoch_second = 86400, microsecond = 0\<rparr>]"
    by auto
  with s get_times_ds_daily show ?thesis by simp
qed



section \<open>Point extractor\<close>

lemma closer_total: "a \<noteq> b \<Longrightarrow> closer x a b \<or> closer x b a"
  unfolding closer_def by linarith

lemma closer_trans: "closer x a b \<Longrightarrow> closer x b c \<Longrightarrow> closer x a c"
  unfolding closer_def by linarith

lemma nearest_position_best:
  assumes "ls \<noteq> []" "distinct ls"
  shows "nearest_position x ls < length ls
         \<and> (\<forall>k<length ls. k \<noteq> nearest_position x ls \<longrightarrow> closer x (ls ! nearest_position x ls) (ls ! k))"
  using assms
proof (induction ls)
  case Nil then show ?case by simp
next
  case (Cons l ls)
  show ?case
  proof (cases "ls = []")
    case True then show ?thesis by simp
  next
    case False
    define k where "k = nearest_position x ls"
    from Cons False have ih: "k < length ls" "\<forall>m<length ls. m \<noteq> k \<longrightarrow> closer x (ls ! k) (ls ! m)"
      unfolding k_def by simp_all
    have ne: "ls ! k \<noteq> l" using Cons.prems ih(1) by auto
    show ?thesis
    proof (cases "closer x (ls ! k) l")
      case True
      then have np: "nearest_position x (l # ls) = Suc k"
        using False by (simp add: k_def Let_def)
      show ?thesis unfolding np using ih True
        by (auto simp: nth_Cons split: nat.splits)
    next
      case c: False
      then have np: "nearest_position x (l # ls) = 0"
        using False by (simp add: k_def Let_def)
      from c ne have lk: "closer x l (ls ! k)" using closer_total by blast
      have "closer x l (ls ! m)" if "m < length ls" for m
        using ih(2) that lk closer_trans by (cases "m = k") auto
      then show ?thesis unfolding np
        by (auto simp: nth_Cons split: nat.splits)
    qed
  qed
qed

lemma strict_axis_distinct:
  assumes "sorted_wrt (<) xs \<or> sorted_wrt (>) (xs :: real list)"
  shows "distinct xs \<and> (sorted xs \<or> sorted (rev xs))"
proof -
  from assms show ?thesis
  proof
    assume "sorted_wrt (<) xs"
    then show ?thesis by (simp add: strict_sorted_iff)
  next
    assume "sorted_wrt (>) xs"
    then have "sorted_wrt (<) (rev xs)" by (simp add: sorted_wrt_rev)
    then have "sorted (rev xs) \<and> distinct (rev xs)" by (simp add: strict_sorted_iff)
    then show ?thesis by simp
  qed
qed

lemma get_nearest_grid_axis:
  assumes "grid_axis ls"
  shows "\<exists>i. get_nearest ls (Float64 x) = Inr i \<and> is_nearest ls x i"
proof -
  define ns where "ns = map label_number ls"
  from assms have ne: "ns \<noteq> []" and ty: "\<forall>l\<in>set ls. dtype_of l = float64"
    and so: "sorted_wrt (<) ns \<or> sorted_wrt (>) ns"
    unfolding grid_axis_def ns_def by auto
  from strict_axis_distinct [OF so] have di: "distinct ns" and mo: "sorted ns \<or> sorted (rev ns)" by auto
  define i where "i = nearest_position x ns"
  have g: "get_nearest ls (Float64 x) = Inr i"
    unfolding get_nearest_def using ty di mo ne by (simp add: ns_def [symmetric] i_def)
  from nearest_position_best [OF ne di, of x]
  have il: "i < length ns" and best: "\<forall>k<length ns. k \<noteq> i \<longrightarrow> closer x (ns ! i) (ns ! k)"
    unfolding i_def by auto
  have len: "length ns = length ls" by (simp add: ns_def)
  have nth: "ns ! k = label_number (ls ! k)" if "k < length ls" for k
    using that by (simp add: ns_def)
  have d: "\<bar>ns ! i - x\<bar> \<le> \<bar>ns ! k - x\<bar>" if "k < length ns" for k
    using best that unfolding closer_def by (cases "k = i") auto
  have hi: "ns ! k \<le> ns ! i" if "k < length ns" "\<forall>m<length ns. ns ! m \<le> x" for k
  proof (cases "k = i")
    case True then show ?thesis by simp
  next
    case False
    with best that have "closer x (ns ! i) (ns ! k)" by simp
    moreover have "ns ! i \<le> x" "ns ! k \<le> x" using that il by auto
    ultimately show ?thesis unfolding closer_def by linarith
  qed
  have lo: "ns ! i \<le> ns ! k" if "k < length ns" "\<forall>m<length ns. x \<le> ns ! m" for k
  proof (cases "k = i")
    case True then show ?thesis by simp
  next
    case False
    with best that have "closer x (ns ! i) (ns ! k)" by simp
    moreover have "x \<le> ns ! i" "x \<le> ns ! k" using that il by auto
    ultimately show ?thesis unfolding closer_def by linarith
  qed
  have "is_nearest ls x i"
    unfolding is_nearest_def
  proof (intro conjI allI impI ballI)
    show "i < length ls" using il len by simp
  next
    fix k assume "k < length ls"
    then show "\<bar>label_number (ls ! i) - x\<bar> \<le> \<bar>label_number (ls ! k) - x\<bar>"
      using d [of k] il len nth by simp
  next
    fix l assume a: "\<forall>l\<in>set ls. label_number l \<le> x" and l: "l \<in> set ls"
    from l obtain k where k: "k < length ls" "l = ls ! k" by (auto simp: in_set_conv_nth)
    have "\<forall>m<length ns. ns ! m \<le> x" using a len nth by auto
    from hi [OF _ this, of k] k il len nth show "label_number l \<le> label_number (ls ! i)" by simp
  next
    fix l assume a: "\<forall>l\<in>set ls. x \<le> label_number l" and l: "l \<in> set ls"
    from l obtain k where k: "k < length ls" "l = ls ! k" by (auto simp: in_set_conv_nth)
    have "\<forall>m<length ns. x \<le> ns ! m" using a len nth by auto
    from lo [OF _ this, of k] k il len nth show "label_number (ls ! i) \<le> label_number l" by simp
  qed
  with g show ?thesis by blast
qed


lemma bindE_Inr [simp]: "bindE (Inr x) f = f x"
  by (simp add: bindE_def)

lemma bindE_Inl [simp]: "bindE (Inl e) f = Inl e"
  by (simp add: bindE_def)

lemma bindE_assoc: "bindE (bindE m f) g = bindE m (\<lambda>x. bindE (f x) g)"
  by (cases m) simp_all

lemma sel_two:
  "sel a [(x, vx), (y, vy)] = bindE (sel_nearest a x vx) (\<lambda>c. sel_nearest c y vy)"
  by (cases "sel_nearest a x vx") (simp_all add: bindE_def split: sum.splits)

lemma routing:
  "get_scalar_time_series ds var lat lon day_offset days =
     (case horizontal_coordinates var of
        (xd, yd) \<Rightarrow> nearest_on xd yd ds var lat lon day_offset days)"
  unfolding get_scalar_time_series_def horizontal_coordinates_def nearest_on_def Let_def sel_two
  by (simp add: bindE_assoc)

lemma nearest_on_valid:
  assumes v: "variables ds var = Some v"
    and dims: "''time'' \<in> set (var_dims v)" "xd \<in> set (var_dims v)" "yd \<in> set (var_dims v)"
    and ne: "xd \<noteq> ''time''" "yd \<noteq> ''time''" "xd \<noteq> yd"
    and idx: "indexes ds ''time'' = Some ts" "indexes ds xd = Some xl" "indexes ds yd = Some yl"
    and ax: "grid_axis xl" "grid_axis yl"
  shows "\<exists>i j. nearest_on xd yd ds var lat lon day_offset days
                = Inr (values_of (extracted ds v xd yd ts (Slice day_offset (day_offset + days)) i j))
              \<and> is_nearest xl lon i \<and> is_nearest yl lat j"
proof -
  define sl where "sl = Slice day_offset (day_offset + days)"
  from get_nearest_grid_axis [OF ax(1), of lon] obtain i
    where i: "get_nearest xl (Float64 lon) = Inr i" "is_nearest xl lon i" by blast
  from get_nearest_grid_axis [OF ax(2), of lat] obtain j
    where j: "get_nearest yl (Float64 lat) = Inr j" "is_nearest yl lat j" by blast
  define a where "a = \<lparr>dims = var_dims v, coords = indexes ds |` set (var_dims v), data = var_data v\<rparr>"
  have ga: "getitem ds var = Inr a"
    using v by (simp add: getitem_def lookup_def a_def)
  define b where "b = a\<lparr>coords := (coords a)(''time'' \<mapsto> slice_list sl ts),
                 data := (\<lambda>pos. data a (pos(''time'' := pos ''time'' + slice_start sl (length ts))))\<rparr>"
  have gb: "isel a ''time'' sl = Inr b"
    using dims idx by (simp add: isel_def a_def b_def)
  define c where "c = \<lparr>dims = removeAll xd (dims b), coords = (coords b)(xd := None),
                 data = (\<lambda>pos. data b (pos(xd := i)))\<rparr>"
  have gc: "sel_nearest b xd (Float64 lon) = Inr c"
    using dims idx ne i by (simp add: sel_nearest_def a_def b_def c_def)
  define d where "d = \<lparr>dims = removeAll yd (dims c), coords = (coords c)(yd := None),
                 data = (\<lambda>pos. data c (pos(yd := j)))\<rparr>"
  have gd: "sel_nearest c yd (Float64 lat) = Inr d"
    using dims idx ne j by (simp add: sel_nearest_def a_def b_def c_def d_def)
  have "d = extracted ds v xd yd ts sl i j"
  proof -
    have "(pos(yd := j, xd := i))(''time'' := pos ''time'' + n)
          = pos(yd := j, xd := i, ''time'' := pos ''time'' + n)" for pos :: "string \<Rightarrow> nat" and n
      by simp
    moreover have "((indexes ds |` set (var_dims v))(''time'' \<mapsto> slice_list sl ts))(xd := None, yd := None)
          = (indexes ds |` set (var_dims v))(''time'' \<mapsto> slice_list sl ts, xd := None, yd := None)"
      by simp
    ultimately show ?thesis
      using ne unfolding extracted_def d_def c_def b_def a_def by simp
  qed
  then have "nearest_on xd yd ds var lat lon day_offset days
             = Inr (values_of (extracted ds v xd yd ts sl i j))"
    unfolding nearest_on_def sl_def [symmetric] using ga gb gc gd by simp
  with i j show ?thesis unfolding sl_def by blast
qed

lemmas eval_extract =
  get_scalar_time_series_def sose3d_def grid_index_def field_def getitem_def lookup_def
  bindE_def isel_def clip_index_def sel_nearest_def get_nearest_def closer_def values_of_def
  dim_size_def position_def Let_def restrict_map_def result_shape_def result_item_def
  result_error_def

lemma axis_of_map: "d \<in> set ds \<Longrightarrow> map f ds ! axis_of d ds = f d"
  by (induction ds) auto

lemma horizontal_not_time:
  assumes "horizontal_coordinates var = (xd, yd)"
  shows "xd \<noteq> ''time'' \<and> yd \<noteq> ''time'' \<and> xd \<noteq> yd"
  using assms unfolding horizontal_coordinates_def by (auto split: if_splits)

lemma slice_length:
  assumes "0 \<le> day_offset" "0 \<le> days"
  shows "int (length (slice_list (Slice day_offset (day_offset + days)) xs))
         = min days (max 0 (int (length xs) - day_offset))"
  using assms by (simp add: clip_index_def Let_def)





text \<open>
  Claim C3, as the code has it. For a variable of the dataset that has the time dimension
  and the two horizontal dimensions of its placement, each with a well-formed coordinate
  axis, and for non-negative \<open>day_offset\<close> and \<open>days\<close>, \<open>get_scalar_time_series\<close> raises
  nothing and the time length of its result is \<open>min(days, what remains of the axis from
  day_offset)\<close>, at most \<open>days\<close>; when \<open>day_offset + days\<close> exceeds the length of the axis
  and \<open>days\<close> is positive, the result is shorter than \<open>days\<close>.
\<close>

theorem time_window_length:
  assumes "variables ds var = Some v"
    and "horizontal_coordinates var = (xd, yd)"
    and "''time'' \<in> set (var_dims v)" "xd \<in> set (var_dims v)" "yd \<in> set (var_dims v)"
    and "indexes ds ''time'' = Some ts" "indexes ds xd = Some xl" "indexes ds yd = Some yl"
    and "grid_axis xl" "grid_axis yl"
    and "0 \<le> day_offset" "0 \<le> days"
  shows "\<exists>r n. get_scalar_time_series ds var lat lon day_offset days = Inr r
              \<and> n = int (shape r ! axis_of ''time'' (removeAll yd (removeAll xd (var_dims v))))
              \<and> n = min days (max 0 (int (length ts) - day_offset))
              \<and> n \<le> days
              \<and> (int (length ts) < day_offset + days \<and> 0 < days \<longrightarrow> n < days)"
proof -
  from horizontal_not_time [OF assms(2)]
  have ne: "xd \<noteq> ''time''" "yd \<noteq> ''time''" "xd \<noteq> yd" by simp_all
  define sl where "sl = Slice day_offset (day_offset + days)"
  from nearest_on_valid [OF assms(1) assms(3-5) ne assms(6-10), of lat lon day_offset days]
  obtain i j where r: "get_scalar_time_series ds var lat lon day_offset days
                = Inr (values_of (extracted ds v xd yd ts sl i j))"
    unfolding routing assms(2) sl_def by auto
  define ds' where "ds' = removeAll yd (removeAll xd (var_dims v))"
  have t: "''time'' \<in> set ds'" using assms(3) ne by (simp add: ds'_def)
  have "shape (values_of (extracted ds v xd yd ts sl i j)) ! axis_of ''time'' ds'
        = dim_size (extracted ds v xd yd ts sl i j) ''time''"
    unfolding values_of_def using axis_of_map [OF t] by (simp add: extracted_def ds'_def)
  also have "\<dots> = length (slice_list sl ts)"
    using ne by (simp add: dim_size_def extracted_def)
  finally have "int (shape (values_of (extracted ds v xd yd ts sl i j)) ! axis_of ''time'' ds')
        = min days (max 0 (int (length ts) - day_offset))"
    unfolding sl_def using slice_length [OF assms(11,12)] by simp
  with r assms(11,12) show ?thesis unfolding ds'_def by auto
qed

theorem time_window_length_witness:
  "variables sose3d ''UVEL'' = Some (field [''time'', ''Z'', ''YC'', ''XG''] 1)
   \<and> result_shape (get_scalar_time_series sose3d ''UVEL'' (- 59) 10 1 5) = Some [2, 2]
   \<and> (\<exists>r n. get_scalar_time_series sose3d ''UVEL'' (- 59) 10 1 5 = Inr r
         \<and> n = int (shape r ! 0) \<and> n = 2 \<and> n < 5)"
proof -
  have v: "variables sose3d ''UVEL'' = Some (field [''time'', ''Z'', ''YC'', ''XG''] 1)"
    by (simp add: sose3d_def)
  have h: "horizontal_coordinates ''UVEL'' = (''XG'', ''YC'')"
    by (simp add: horizontal_coordinates_def)
  have d: "''time'' \<in> set (var_dims (field [''time'', ''Z'', ''YC'', ''XG''] 1))"
    "''XG'' \<in> set (var_dims (field [''time'', ''Z'', ''YC'', ''XG''] 1))"
    "''YC'' \<in> set (var_dims (field [''time'', ''Z'', ''YC'', ''XG''] 1))"
    by (simp_all add: field_def)
  have i: "indexes sose3d ''time'' = Some [Float64 0, Float64 86400, Float64 172800]"
    "indexes sose3d ''XG'' = Some [Float64 (19 / 2), Float64 (21 / 2)]"
    "indexes sose3d ''YC'' = Some [Float64 (- 60), Float64 (- 59)]"
    by (simp_all add: sose3d_def grid_index_def)
  have g: "grid_axis [Float64 (19 / 2), Float64 (21 / 2)]" "grid_axis [Float64 (- 60), Float64 (- 59)]"
    by (simp_all add: grid_axis_def)
  have s: "result_shape (get_scalar_time_series sose3d ''UVEL'' (- 59) 10 1 5) = Some [2, 2]"
    by (simp add: eval_extract)
  from time_window_length [OF v h d i g, of 1 5 "- 59" 10]
  have "\<exists>r n. get_scalar_time_series sose3d ''UVEL'' (- 59) 10 1 5 = Inr r
         \<and> n = int (shape r ! 0) \<and> n = 2 \<and> n < 5"
    by (auto simp: field_def)
  with v s show ?thesis by blast
qed

text \<open>
  Claim C3 as stated fails in two ways. An empty request past the end of the axis is not
  shortened: with three days on the axis, \<open>day_offset = 4\<close> and \<open>days = 0\<close>, the window
  exceeds the axis and the result has time length 0, the 0 days requested. And a variable
  that is present but has no time dimension, such as the layer thickness \<open>drF\<close>, makes the
  time selection raise.
\<close>

theorem time_window_not_shorter_counterexample:
  "indexes sose3d ''time'' = Some [Float64 0, Float64 86400, Float64 172800]
   \<and> result_shape (get_scalar_time_series sose3d ''UVEL'' (- 59) 10 4 0) = Some [0, 2]
   \<and> variables sose3d ''drF'' = Some \<lparr>var_dims = [''Z''], var_data = (\<lambda>pos. 10)\<rparr>
   \<and> result_error (get_scalar_time_series sose3d ''drF'' (- 59) 10 0 2) = Some ValueError"
  by (simp add: eval_extract)

text \<open>
  Claim C4. \<open>get_scalar_time_series\<close> selects the nearest point on the coordinates \<open>XG\<close>
  and \<open>YC\<close> when the variable is \<open>UVEL\<close> or \<open>oceTAUX\<close>, on \<open>XC\<close> and \<open>YG\<close> when it is \<open>VVEL\<close>
  or \<open>oceTAUY\<close>, and on \<open>XC\<close> and \<open>YC\<close> for every other name.
\<close>

theorem routing_by_placement:
  "(var \<in> {''UVEL'', ''oceTAUX''} \<longrightarrow>
      get_scalar_time_series ds var lat lon day_offset days
      = nearest_on ''XG'' ''YC'' ds var lat lon day_offset days)
   \<and> (var \<in> {''VVEL'', ''oceTAUY''} \<longrightarrow>
      get_scalar_time_series ds var lat lon day_offset days
      = nearest_on ''XC'' ''YG'' ds var lat lon day_offset days)
   \<and> (var \<notin> {''UVEL'', ''oceTAUX'', ''VVEL'', ''oceTAUY''} \<longrightarrow>
      get_scalar_time_series ds var lat lon day_offset days
      = nearest_on ''XC'' ''YC'' ds var lat lon day_offset days)"
  unfolding routing horizontal_coordinates_def by auto

theorem routing_by_placement_witness:
  "get_scalar_time_series sose3d ''UVEL'' (- 59) 10 0 3
     = nearest_on ''XG'' ''YC'' sose3d ''UVEL'' (- 59) 10 0 3
   \<and> get_scalar_time_series sose3d ''VVEL'' (- 59) 10 0 3
     = nearest_on ''XC'' ''YG'' sose3d ''VVEL'' (- 59) 10 0 3
   \<and> get_scalar_time_series sose3d ''THETA'' (- 59) 10 0 3
     = nearest_on ''XC'' ''YC'' sose3d ''THETA'' (- 59) 10 0 3
   \<and> result_item (get_scalar_time_series sose3d ''VVEL'' (- 59) 10 0 3) [2, 1] = Some 114"
proof -
  have "result_item (get_scalar_time_series sose3d ''VVEL'' (- 59) 10 0 3) [2, 1] = Some 114"
    by (simp add: eval_extract)
  with routing_by_placement [of "''UVEL''" sose3d "- 59" 10 0 3]
    routing_by_placement [of "''VVEL''" sose3d "- 59" 10 0 3]
    routing_by_placement [of "''THETA''" sose3d "- 59" 10 0 3]
  show ?thesis by simp
qed

text \<open>
  Claim C10. \<open>get_profile_time_series\<close> returns what \<open>get_scalar_time_series\<close> returns on
  the same arguments, a result or an exception.
\<close>

theorem profile_equals_scalar:
  "get_profile_time_series ds var lat lon day_offset days
   = get_scalar_time_series ds var lat lon day_offset days"
  unfolding get_profile_time_series_def get_scalar_time_series_def ..

theorem profile_equals_scalar_witness:
  "get_profile_time_series sose3d ''THETA'' (- 59) 10 0 3
   = get_scalar_time_series sose3d ''THETA'' (- 59) 10 0 3
   \<and> result_item (get_profile_time_series sose3d ''THETA'' (- 59) 10 0 3) [1, 1] = Some 114"
proof -
  have "result_item (get_scalar_time_series sose3d ''THETA'' (- 59) 10 0 3) [1, 1] = Some 114"
    by (simp add: eval_extract)
  with profile_equals_scalar [of sose3d "''THETA''" "- 59" 10 0 3]
  show ?thesis by simp
qed



section \<open>Geostrophic solver\<close>

subsection \<open>Aligned arrays\<close>

lemma reindex_array_same:
  assumes "coords a d = Some ls"
  shows "reindex_array a d ls = a"
  using assms by (simp add: reindex_array_def locate_def map_upd_triv)

lemma align_aligned:
  assumes "\<forall>d\<in>set ds. \<exists>ls. coords a d = Some ls \<and> coords b d = Some ls"
  shows "align ds a b = Inr (a, b)"
  using assms
proof (induction ds)
  case Nil then show ?case by simp
next
  case (Cons d ds)
  then obtain ls where ls: "coords a d = Some ls" "coords b d = Some ls" by auto
  then show ?case
    using Cons by (simp add: join_labels_def reindex_array_same)
qed

lemma binary_op_aligned:
  assumes "aligned a b"
  shows "binary_op f a b = Inr (broadcast f a b)"
proof -
  have "align (filter (\<lambda>d. d \<in> set (dims b)) (dims a)) a b = Inr (a, b)"
    using assms by (intro align_aligned) (auto simp: aligned_def)
  then show ?thesis by (simp add: binary_op_def)
qed

lemma aligned_scale [simp]:
  "aligned (scale c a) b = aligned a b" "aligned a (scale c b) = aligned a b"
  by (simp_all add: aligned_def scale_def)

lemma sel_nearest_Inr:
  assumes "sel_nearest a d x = Inr a'"
  shows "\<exists>ls i. d \<in> set (dims a) \<and> coords a d = Some ls \<and> get_nearest ls x = Inr i
          \<and> a' = \<lparr>dims = removeAll d (dims a), coords = (coords a)(d := None),
                   data = (\<lambda>pos. data a (pos(d := i)))\<rparr>"
  using assms unfolding sel_nearest_def
  by (auto split: if_splits option.splits sum.splits simp: bindE_def)

lemma aligned_sel_nearest:
  assumes "aligned a b" "sel_nearest a d x = Inr a'"
  shows "aligned a' b"
proof -
  from sel_nearest_Inr [OF assms(2)] obtain ls i where
    "a' = \<lparr>dims = removeAll d (dims a), coords = (coords a)(d := None),
           data = (\<lambda>pos. data a (pos(d := i)))\<rparr>" by blast
  with assms(1) show ?thesis unfolding aligned_def by fastforce
qed

lemma bindE_Inr_iff:
  "bindE m f = Inr y \<longleftrightarrow> (\<exists>x. m = Inr x \<and> f x = Inr y)"
  by (cases m) simp_all

lemma aligned_sel:
  assumes "aligned a b" "sel a kw = Inr a'"
  shows "aligned a' b"
  using assms
proof (induction kw arbitrary: a)
  case Nil then show ?case by simp
next
  case (Cons p kw)
  obtain d x where p: "p = (d, x)" by (cases p)
  from Cons.prems(2) obtain c where c: "sel_nearest a d x = Inr c" "sel c kw = Inr a'"
    unfolding p by (auto simp: bindE_Inr_iff)
  from Cons.IH [OF aligned_sel_nearest [OF Cons.prems(1) c(1)] c(2)] show ?case .
qed


lemma buoyancy_integral_aligned:
  assumes "aligned T S"
  shows "buoyancy_integral g \<alpha> \<beta> T S
         = Inr (broadcast (\<lambda>x y. g * (\<alpha> * x - \<beta> * y)) T S)"
proof -
  have "aligned (scale \<alpha> T) (scale \<beta> S)" using assms by simp
  then have "binary_op (-) (scale \<alpha> T) (scale \<beta> S)
             = Inr (broadcast (-) (scale \<alpha> T) (scale \<beta> S))"
    by (rule binary_op_aligned)
  then show ?thesis
    by (simp add: buoyancy_integral_def broadcast_def scale_def cong: if_cong)
qed

lemma aligned_broadcast:
  assumes "aligned a T" "aligned a S"
  shows "aligned a (broadcast f T S)"
  using assms unfolding aligned_def broadcast_def by auto

lemma thermal_wind_Inr:
  assumes r: "thermal_wind op ref f B [(xd, x), (yd, y)] = Inr r"
    and al: "aligned ref B" and ne: "xd \<noteq> yd"
  shows "f \<noteq> 0 \<and> (\<exists>xl yl i j.
           coords (broadcast op ref B) xd = Some xl \<and> get_nearest xl x = Inr i
         \<and> coords (broadcast op ref B) yd = Some yl \<and> get_nearest yl y = Inr j
         \<and> (\<forall>ix. item r ix
               = op (data ref (at_point xd i yd j (dims (broadcast op ref B)) ix))
                    (1 / f * data B (at_point xd i yd j (dims (broadcast op ref B)) ix))))"
proof -
  from r have f: "f \<noteq> 0"
    by (auto simp: thermal_wind_def py_truediv_def split: if_splits)
  define c where "c = broadcast op ref (scale (1 / f) B)"
  have dc: "dims c = dims (broadcast op ref B)" "coords c = coords (broadcast op ref B)"
    by (simp_all add: c_def broadcast_def scale_def cong: if_cong)
  have "binary_op op ref (scale (1 / f) B) = Inr c"
    unfolding c_def using al by (intro binary_op_aligned) simp
  with r f obtain s where s: "sel c [(xd, x), (yd, y)] = Inr s" "r = values_of s"
    by (auto simp: thermal_wind_def py_truediv_def bindE_Inr_iff)
  from s(1) obtain c1 where c1: "sel_nearest c xd x = Inr c1" "sel_nearest c1 yd y = Inr s"
    unfolding sel_two by (auto simp: bindE_Inr_iff)
  from sel_nearest_Inr [OF c1(1)] obtain xl i where
    x: "coords c xd = Some xl" "get_nearest xl x = Inr i"
    "c1 = \<lparr>dims = removeAll xd (dims c), coords = (coords c)(xd := None),
           data = (\<lambda>pos. data c (pos(xd := i)))\<rparr>" by blast
  from sel_nearest_Inr [OF c1(2)] obtain yl j where
    y: "coords c1 yd = Some yl" "get_nearest yl y = Inr j"
    "s = \<lparr>dims = removeAll yd (dims c1), coords = (coords c1)(yd := None),
          data = (\<lambda>pos. data c1 (pos(yd := j)))\<rparr>" by blast
  have "item r ix
        = op (data ref (at_point xd i yd j (dims (broadcast op ref B)) ix))
             (1 / f * data B (at_point xd i yd j (dims (broadcast op ref B)) ix))" for ix
    unfolding s(2) y(3) x(3) values_of_def at_point_def dc [symmetric]
    by (simp add: c_def broadcast_def scale_def)
  with f x(1,2) y(1,2) ne show ?thesis
    unfolding x(3) dc by auto
qed


subsection \<open>Running the solver\<close>

lemma bindS_Inr_iff:
  "bindS m f st = (st', Inr y) \<longleftrightarrow> (\<exists>st1 x. m st = (st1, Inr x) \<and> f x st1 = (st', Inr y))"
  by (auto simp: bindS_def split: prod.splits sum.splits)

lemma liftS_iff: "liftS m st = (st', r) \<longleftrightarrow> st' = st \<and> m = r"
  by (auto simp: liftS_def)

lemma deref_iff: "deref r st = (st', x) \<longleftrightarrow> st' = st \<and> x = Inr (st ! r)"
  by (auto simp: deref_def)

lemma returnS_iff: "returnS x st = (st', r) \<longleftrightarrow> st' = st \<and> r = Inr x"
  by (auto simp: returnS_def)

lemma run_Inr:
  assumes su: "solver_setup lib ds0 day_offset days st = (st1, Inr F)"
    and run: "compute_geostrophic_velocities lib ds0 lat lon day_offset days zF \<alpha> \<beta> g f st
              = (st2, Inr (U_geo, V_geo))"
  shows "\<exists>Bx By z U_d V_d.
       st2 = st1
     \<and> buoyancy_integral g \<alpha> \<beta> (sum_dz_dTdx F) (sum_dz_dSdx F) = Inr Bx
     \<and> buoyancy_integral g \<alpha> \<beta> (sum_dz_dTdy F) (sum_dz_dSdy F) = Inr By
     \<and> bindE (get_index (st1 ! local_ds F) ''Z'') first_label = Inr z
     \<and> sel (fld_U F) [(''XG'', Float64 lon), (''YC'', Float64 lat), (''Z'', z)] = Inr U_d
     \<and> sel (fld_V F) [(''XC'', Float64 lon), (''YG'', Float64 lat), (''Z'', z)] = Inr V_d
     \<and> thermal_wind (-) U_d f By [(''XC'', Float64 lon), (''YG'', Float64 lat)] = Inr U_geo
     \<and> thermal_wind (+) V_d f Bx [(''XG'', Float64 lon), (''YC'', Float64 lat)] = Inr V_geo"
  using run unfolding compute_geostrophic_velocities_def
  by (simp add: bindS_Inr_iff su liftS_iff deref_iff returnS_iff) blast


lemma get_nearest_Inr_nearest:
  assumes "get_nearest ls (Float64 x) = Inr i"
  shows "is_nearest ls x i"
proof -
  from assms have ty: "\<forall>l\<in>set ls. dtype_of l = float64"
    and di: "distinct (map label_number ls)"
    and mo: "sorted (map label_number ls) \<or> sorted (rev (map label_number ls))"
    and ne: "ls \<noteq> []"
    unfolding get_nearest_def by (auto simp: Let_def split: if_splits)
  have "sorted_wrt (<) (map label_number ls) \<or> sorted_wrt (>) (map label_number ls)"
  proof -
    from mo show ?thesis
    proof
      assume "sorted (map label_number ls)"
      with di show ?thesis by (simp add: strict_sorted_iff)
    next
      assume "sorted (rev (map label_number ls))"
      with di have "sorted_wrt (<) (rev (map label_number ls))"
        by (simp add: strict_sorted_iff)
      then show ?thesis by (simp add: sorted_wrt_rev)
    qed
  qed
  with ty ne have "grid_axis ls" by (simp add: grid_axis_def)
  from get_nearest_grid_axis [OF this, of x] assms show ?thesis by auto
qed

lemma component_formula:
  assumes tw: "thermal_wind op ref f B [(xd, Float64 lon), (yd, Float64 lat)] = Inr r"
    and B: "buoyancy_integral g \<alpha> \<beta> T S = Inr B"
    and al: "aligned T S" "aligned ref T" "aligned ref S"
    and ne: "xd \<noteq> yd"
  shows "f \<noteq> 0 \<and> (\<exists>xl yl i j.
           coords (combined ref T S) xd = Some xl \<and> is_nearest xl lon i
         \<and> coords (combined ref T S) yd = Some yl \<and> is_nearest yl lat j
         \<and> (\<forall>ix. item r ix = geostrophic op g \<alpha> \<beta> f ref T S xd i yd j ix))"
proof -
  from B buoyancy_integral_aligned [OF al(1), of g \<alpha> \<beta>]
  have Beq: "B = broadcast (\<lambda>x y. g * (\<alpha> * x - \<beta> * y)) T S" by simp
  have "aligned ref B" unfolding Beq using al(2,3) by (rule aligned_broadcast)
  from thermal_wind_Inr [OF tw this ne] obtain xl yl i j where
    f: "f \<noteq> 0"
    and x: "coords (broadcast op ref B) xd = Some xl" "get_nearest xl (Float64 lon) = Inr i"
    and y: "coords (broadcast op ref B) yd = Some yl" "get_nearest yl (Float64 lat) = Inr j"
    and it: "\<forall>ix. item r ix
               = op (data ref (at_point xd i yd j (dims (broadcast op ref B)) ix))
                    (1 / f * data B (at_point xd i yd j (dims (broadcast op ref B)) ix))"
    by blast
  have dc: "dims (broadcast op ref B) = dims (combined ref T S)"
    "coords (broadcast op ref B) = coords (combined ref T S)"
    unfolding Beq combined_def by (simp_all add: broadcast_def cong: if_cong)
  have "\<forall>ix. item r ix = geostrophic op g \<alpha> \<beta> f ref T S xd i yd j ix"
    using it unfolding geostrophic_def Let_def dc by (simp add: Beq broadcast_def)
  with f x y get_nearest_Inr_nearest show ?thesis unfolding dc by blast
qed

lemma new_object_iff:
  "new_object d st = (st', r) \<longleftrightarrow> st' = st @ [d] \<and> r = Inr (length st)"
  by (auto simp: new_object_def)

lemma time_window_Inr:
  assumes "time_window ds name sl st = (st', Inr a)"
  shows "st' = st"
  using assms unfolding time_window_def
  by (auto simp: bindS_Inr_iff deref_iff liftS_iff)

lemma attach_thickness_Inr:
  assumes "attach_thickness ds name hFac st = (st', Inr u)"
  shows "\<exists>v. st' = st[ds := (st ! ds)\<lparr>variables := (variables (st ! ds))(name \<mapsto> v)\<rparr>]"
  using assms unfolding attach_thickness_def
  by (auto simp: bindS_Inr_iff deref_iff liftS_iff setitem_def)

lemma setup_store:
  assumes "solver_setup lib ds0 day_offset days st = (st1, Inr F)"
  shows "local_ds F = length st \<and> (\<exists>d. st1 = st @ [d]
           \<and> variables d ''drW'' \<noteq> None \<and> variables d ''drS'' \<noteq> None \<and> variables d ''drC'' \<noteq> None)"
proof -
  from assms obtain d1 sa sb sc sd se sf sg U V T S where
    F: "local_ds F = length st"
    and tw: "time_window (length st) ''UVEL'' (Slice day_offset (day_offset + days)) (st @ [d1]) = (sa, Inr U)"
      "time_window (length st) ''VVEL'' (Slice day_offset (day_offset + days)) sa = (sb, Inr V)"
      "time_window (length st) ''THETA'' (Slice day_offset (day_offset + days)) sb = (sc, Inr T)"
      "time_window (length st) ''SALT'' (Slice day_offset (day_offset + days)) sc = (sd, Inr S)"
    and at: "attach_thickness (length st) ''drW'' ''hFacW'' sd = (se, Inr ())"
      "attach_thickness (length st) ''drS'' ''hFacS'' se = (sf, Inr ())"
      "attach_thickness (length st) ''drC'' ''hFacC'' sf = (sg, Inr ())"
    and st1: "st1 = sg"
    unfolding solver_setup_def Let_def
    by (auto simp: bindS_Inr_iff deref_iff liftS_iff new_object_iff returnS_iff)
  from tw have sd: "sd = st @ [d1]"
    by (auto dest!: time_window_Inr)
  from attach_thickness_Inr [OF at(1)] attach_thickness_Inr [OF at(2)]
    attach_thickness_Inr [OF at(3)] sd st1
  have "\<exists>d. st1 = st @ [d]
           \<and> variables d ''drW'' \<noteq> None \<and> variables d ''drS'' \<noteq> None \<and> variables d ''drC'' \<noteq> None"
    by (auto simp: list_update_append)
  with F show ?thesis by simp
qed

lemma run_setup:
  assumes "compute_geostrophic_velocities lib ds0 lat lon day_offset days zF \<alpha> \<beta> g f st
           = (st', Inr r)"
  shows "\<exists>F. solver_setup lib ds0 day_offset days st = (st', Inr F)"
  using assms unfolding compute_geostrophic_velocities_def
  by (auto simp: bindS_Inr_iff deref_iff liftS_iff returnS_iff)

lemma run_zero:
  assumes su: "solver_setup lib ds0 day_offset days st = (st1, Inr F)"
    and "buoyancy_integral g \<alpha> \<beta> (sum_dz_dTdx F) (sum_dz_dSdx F) = Inr Bx"
    and "buoyancy_integral g \<alpha> \<beta> (sum_dz_dTdy F) (sum_dz_dSdy F) = Inr By"
    and "bindE (get_index (st1 ! local_ds F) ''Z'') first_label = Inr z"
    and "sel (fld_U F) [(''XG'', Float64 lon), (''YC'', Float64 lat), (''Z'', z)] = Inr U_d"
    and "sel (fld_V F) [(''XC'', Float64 lon), (''YG'', Float64 lat), (''Z'', z)] = Inr V_d"
  shows "compute_geostrophic_velocities lib ds0 lat lon day_offset days zF \<alpha> \<beta> g 0 st
         = (st1, Inl ZeroDivisionError)"
  using assms unfolding compute_geostrophic_velocities_def
  by (simp add: bindS_def liftS_def deref_def thermal_wind_def py_truediv_def del: sel.simps)

subsection \<open>The store\<close>

lemma frames_bindS:
  assumes "frames n m Q" "\<And>x. Q x \<Longrightarrow> frames n (f x) R"
  shows "frames n (bindS m f) R"
  unfolding frames_def
proof (intro allI impI)
  fix st st' r
  assume a: "n \<le> length st \<and> bindS m f st = (st', r)"
  obtain st1 r1 where m: "m st = (st1, r1)" by (cases "m st")
  with assms(1) a have 1: "n \<le> length st1" "take n st1 = take n st" "\<forall>x. r1 = Inr x \<longrightarrow> Q x"
    unfolding frames_def by blast+
  show "n \<le> length st' \<and> take n st' = take n st \<and> (\<forall>x. r = Inr x \<longrightarrow> R x)"
  proof (cases r1)
    case (Inl e)
    with a m 1 show ?thesis by (auto simp: bindS_def)
  next
    case (Inr x)
    with a m have "f x st1 = (st', r)" by (simp add: bindS_def)
    moreover from Inr 1 have "Q x" by simp
    ultimately show ?thesis using assms(2) 1 unfolding frames_def by metis
  qed
qed

lemma frames_liftS: "frames n (liftS m) (\<lambda>x. True)"
  by (simp add: frames_def liftS_def)

lemma frames_deref: "frames n (deref r) (\<lambda>x. True)"
  by (simp add: frames_def deref_def)

lemma frames_returnS: "Q x \<Longrightarrow> frames n (returnS x) Q"
  by (simp add: frames_def returnS_def)

lemma frames_new_object: "frames n (new_object d) (\<lambda>r. n \<le> r)"
  by (auto simp: frames_def new_object_def)

lemma frames_setitem: "n \<le> r \<Longrightarrow> frames n (setitem r name a) (\<lambda>x. True)"
  by (auto simp: frames_def setitem_def)

lemma frames_time_window: "frames n (time_window ds name sl) (\<lambda>x. True)"
  unfolding time_window_def
  by (rule frames_bindS [OF frames_deref]) (rule frames_liftS)

lemma frames_attach_thickness:
  "n \<le> ds \<Longrightarrow> frames n (attach_thickness ds name hFac) (\<lambda>x. True)"
  unfolding attach_thickness_def
  by (intro frames_bindS [OF frames_deref] frames_bindS [OF frames_liftS] frames_setitem)

lemma frames_solver_setup:
  "frames n (solver_setup lib ds0 day_offset days) (\<lambda>F. True)"
  unfolding solver_setup_def Let_def
  by (intro frames_bindS [OF frames_deref] frames_bindS [OF frames_liftS]
        frames_bindS [OF frames_new_object] frames_bindS [OF frames_time_window]
        frames_bindS [OF frames_attach_thickness] frames_returnS TrueI)

lemma frames_compute:
  "frames n (compute_geostrophic_velocities lib ds0 lat lon day_offset days zF \<alpha> \<beta> g f) (\<lambda>r. True)"
  unfolding compute_geostrophic_velocities_def
  by (intro frames_bindS [OF frames_solver_setup] frames_bindS [OF frames_liftS]
        frames_bindS [OF frames_deref] frames_returnS TrueI)


lemma framesD:
  assumes "frames n p Q" "n \<le> length st" "p st = (st', r)"
  shows "n \<le> length st' \<and> take n st' = take n st"
  using assms unfolding frames_def by blast

subsection \<open>The example run\<close>

lemma var_dims_field [simp]: "var_dims (field ds c) = ds"
  by (simp add: field_def)

lemmas eval_shape =
  solver_setup_def compute_geostrophic_velocities_def bindS_def liftS_def returnS_def deref_def
  new_object_def setitem_def reversed_vertical_def get_index_def reindex_def reindex_var_def
  time_window_def attach_thickness_def getattr_def lookup_def isel_def clip_index_def
  binary_op_def broadcast_def join_labels_def reindex_array_def cumint_derivative_def
  difference_grid_def difference_def cumulative_sum_def metrics_def buoyancy_integral_def scale_def
  first_label_def sel_nearest_def get_nearest_def closer_def thermal_wind_def py_truediv_def
  bindE_def Let_def restrict_map_def
  sose3d_def grid_index_def

lemma example_setup_eq: "example_setup = (example_store, Inr example_fields)"
proof -
  have "\<not> isl (snd example_setup)"
    unfolding example_setup_def by (simp add: eval_shape)
  then show ?thesis
    unfolding example_store_def example_fields_def
    by (cases example_setup) (auto simp: isl_def)
qed

lemma example_aligned: "fields_aligned example_fields"
  unfolding example_fields_def example_setup_def fields_aligned_def aligned_def
  by (simp add: eval_shape)

lemma example_returns:
  assumes "f \<noteq> 0"
  shows "\<exists>U V. example_run \<alpha> \<beta> g f = (example_store, Inr (U, V))"
proof -
  have "\<not> isl (snd (example_run \<alpha> \<beta> g f))"
    unfolding example_run_def using assms by (simp add: eval_shape)
  then obtain s p where "example_run \<alpha> \<beta> g f = (s, Inr p)"
    by (cases "example_run \<alpha> \<beta> g f"; cases "snd (example_run \<alpha> \<beta> g f)") auto
  then obtain s U V where r: "example_run \<alpha> \<beta> g f = (s, Inr (U, V))"
    by (cases p) auto
  from run_Inr [OF example_setup_eq [unfolded example_setup_def] r [unfolded example_run_def]]
  have "s = example_store" by blast
  with r show ?thesis by blast
qed

lemma example_items:
  assumes "f \<noteq> 0"
  shows "map_option (\<lambda>(U, V). (shape U, item U [0, 0], item U [0, 1], item V [1, 1]))
           (returned (example_run \<alpha> \<beta> g f))
         = Some ([2, 2], 1112, 1112 - 1 / f * (g * (\<alpha> * 1000 - \<beta> * 1000)),
                 1114 + 1 / f * (g * (\<alpha> * 10000 - \<beta> * 10000)))"
  unfolding example_run_def using assms
  apply (simp add: eval_shape returned_def values_of_def position_def dim_size_def)
  apply (simp add: field_def locate_def)
  done


subsection \<open>Properties of the solver\<close>

text \<open>
  Claim C1. Let the body of the solver up to the cumulative integrals have succeeded with
  aligned fields, and let the call return \<open>U_geo\<close> and \<open>V_geo\<close>. With \<open>U_d\<close> and \<open>V_d\<close> the
  velocities at the first level of the reversed vertical axis and at the nearest
  \<open>(XG, YC)\<close> and \<open>(XC, YG)\<close> points, every entry of \<open>U_geo\<close> is
  \<open>U_d - 1/f * (g * (\<alpha> * \<Sigma>\<Theta>y - \<beta> * \<Sigma>Sy))\<close> at the position of the nearest \<open>XC\<close> and \<open>YG\<close> labels,
  and every entry of \<open>V_geo\<close> is \<open>V_d + 1/f * (g * (\<alpha> * \<Sigma>\<Theta>x - \<beta> * \<Sigma>Sx))\<close> at the position of
  the nearest \<open>XG\<close> and \<open>YC\<close> labels.
\<close>

theorem thermal_wind_balance:
  assumes su: "solver_setup lib ds0 day_offset days st = (st1, Inr F)"
    and run: "compute_geostrophic_velocities lib ds0 lat lon day_offset days zF \<alpha> \<beta> g f st
              = (st2, Inr (U_geo, V_geo))"
    and al: "fields_aligned F"
  shows "\<exists>z U_d V_d xl yl i j xl' yl' i' j'.
       bindE (get_index (st1 ! local_ds F) ''Z'') first_label = Inr z
     \<and> sel (fld_U F) [(''XG'', Float64 lon), (''YC'', Float64 lat), (''Z'', z)] = Inr U_d
     \<and> sel (fld_V F) [(''XC'', Float64 lon), (''YG'', Float64 lat), (''Z'', z)] = Inr V_d
     \<and> coords (combined U_d (sum_dz_dTdy F) (sum_dz_dSdy F)) ''XC'' = Some xl \<and> is_nearest xl lon i
     \<and> coords (combined U_d (sum_dz_dTdy F) (sum_dz_dSdy F)) ''YG'' = Some yl \<and> is_nearest yl lat j
     \<and> coords (combined V_d (sum_dz_dTdx F) (sum_dz_dSdx F)) ''XG'' = Some xl' \<and> is_nearest xl' lon i'
     \<and> coords (combined V_d (sum_dz_dTdx F) (sum_dz_dSdx F)) ''YC'' = Some yl' \<and> is_nearest yl' lat j'
     \<and> (\<forall>ix. item U_geo ix
           = geostrophic (-) g \<alpha> \<beta> f U_d (sum_dz_dTdy F) (sum_dz_dSdy F) ''XC'' i ''YG'' j ix)
     \<and> (\<forall>ix. item V_geo ix
           = geostrophic (+) g \<alpha> \<beta> f V_d (sum_dz_dTdx F) (sum_dz_dSdx F) ''XG'' i' ''YC'' j' ix)"
proof -
  from run_Inr [OF su run] obtain Bx By z U_d V_d where
    Bx: "buoyancy_integral g \<alpha> \<beta> (sum_dz_dTdx F) (sum_dz_dSdx F) = Inr Bx"
    and By: "buoyancy_integral g \<alpha> \<beta> (sum_dz_dTdy F) (sum_dz_dSdy F) = Inr By"
    and z: "bindE (get_index (st1 ! local_ds F) ''Z'') first_label = Inr z"
    and U: "sel (fld_U F) [(''XG'', Float64 lon), (''YC'', Float64 lat), (''Z'', z)] = Inr U_d"
    and V: "sel (fld_V F) [(''XC'', Float64 lon), (''YG'', Float64 lat), (''Z'', z)] = Inr V_d"
    and tU: "thermal_wind (-) U_d f By [(''XC'', Float64 lon), (''YG'', Float64 lat)] = Inr U_geo"
    and tV: "thermal_wind (+) V_d f Bx [(''XG'', Float64 lon), (''YC'', Float64 lat)] = Inr V_geo"
    by blast
  from al have a: "aligned (sum_dz_dTdx F) (sum_dz_dSdx F)" "aligned (sum_dz_dTdy F) (sum_dz_dSdy F)"
    "aligned U_d (sum_dz_dTdy F)" "aligned U_d (sum_dz_dSdy F)"
    "aligned V_d (sum_dz_dTdx F)" "aligned V_d (sum_dz_dSdx F)"
    unfolding fields_aligned_def using aligned_sel [OF _ U] aligned_sel [OF _ V] by simp_all
  from component_formula [OF tU By a(2,3,4)] component_formula [OF tV Bx a(1,5,6)] z U V
  show ?thesis by (simp del: sel.simps) blast
qed

theorem thermal_wind_balance_witness:
  "fields_aligned example_fields
   \<and> map_option (\<lambda>(U, V). (shape U, item U [0, 0], item U [0, 1], item V [1, 1]))
        (returned (example_run 2 1 10 (1 / 2))) = Some ([2, 2], 1112, - 18888, 201114)
   \<and> (\<exists>U_geo V_geo U_d V_d i j i' j'.
         example_run 2 1 10 (1 / 2) = (example_store, Inr (U_geo, V_geo))
       \<and> (\<forall>ix. item U_geo ix
             = geostrophic (-) 10 2 1 (1 / 2) U_d (sum_dz_dTdy example_fields)
                 (sum_dz_dSdy example_fields) ''XC'' i ''YG'' j ix)
       \<and> (\<forall>ix. item V_geo ix
             = geostrophic (+) 10 2 1 (1 / 2) V_d (sum_dz_dTdx example_fields)
                 (sum_dz_dSdx example_fields) ''XG'' i' ''YC'' j' ix))"
proof -
  obtain U V where r: "example_run 2 1 10 (1 / 2) = (example_store, Inr (U, V))"
    using example_returns [of "1 / 2" 2 1 10] by auto
  from thermal_wind_balance [OF example_setup_eq [unfolded example_setup_def]
      r [unfolded example_run_def] example_aligned]
  have "\<exists>U_d V_d i j i' j'.
         (\<forall>ix. item U ix
             = geostrophic (-) 10 2 1 (1 / 2) U_d (sum_dz_dTdy example_fields)
                 (sum_dz_dSdy example_fields) ''XC'' i ''YG'' j ix)
       \<and> (\<forall>ix. item V ix
             = geostrophic (+) 10 2 1 (1 / 2) V_d (sum_dz_dTdx example_fields)
                 (sum_dz_dSdx example_fields) ''XG'' i' ''YC'' j' ix)"
    by blast
  moreover have "map_option (\<lambda>(U, V). (shape U, item U [0, 0], item U [0, 1], item V [1, 1]))
        (returned (example_run 2 1 10 (1 / 2))) = Some ([2, 2], 1112, - 18888, 201114)"
    using example_items [of "1 / 2" 2 1 10] by simp
  ultimately show ?thesis using r example_aligned by blast
qed

text \<open>
  Claim C2. Under the same conditions, with \<open>\<alpha> = 0\<close>, \<open>\<beta> = 0\<close> and \<open>f \<noteq> 0\<close>, every entry
  of \<open>U_geo\<close> is the entry of the bottom velocity \<open>U_d\<close> at its position, and every entry of
  \<open>V_geo\<close> is that of \<open>V_d\<close>: the buoyancy term vanishes.
\<close>

theorem no_expansion_gives_reference:
  assumes su: "solver_setup lib ds0 day_offset days st = (st1, Inr F)"
    and run: "compute_geostrophic_velocities lib ds0 lat lon day_offset days zF 0 0 g f st
              = (st2, Inr (U_geo, V_geo))"
    and al: "fields_aligned F"
    and f: "f \<noteq> 0"
  shows "\<exists>z U_d V_d i j i' j'.
       bindE (get_index (st1 ! local_ds F) ''Z'') first_label = Inr z
     \<and> sel (fld_U F) [(''XG'', Float64 lon), (''YC'', Float64 lat), (''Z'', z)] = Inr U_d
     \<and> sel (fld_V F) [(''XC'', Float64 lon), (''YG'', Float64 lat), (''Z'', z)] = Inr V_d
     \<and> (\<forall>ix. item U_geo ix
           = data U_d (at_point ''XC'' i ''YG'' j
                         (dims (combined U_d (sum_dz_dTdy F) (sum_dz_dSdy F))) ix))
     \<and> (\<forall>ix. item V_geo ix
           = data V_d (at_point ''XG'' i' ''YC'' j'
                         (dims (combined V_d (sum_dz_dTdx F) (sum_dz_dSdx F))) ix))"
proof -
  from run_Inr [OF su run] obtain Bx By z U_d V_d where
    Bx: "buoyancy_integral g 0 0 (sum_dz_dTdx F) (sum_dz_dSdx F) = Inr Bx"
    and By: "buoyancy_integral g 0 0 (sum_dz_dTdy F) (sum_dz_dSdy F) = Inr By"
    and z: "bindE (get_index (st1 ! local_ds F) ''Z'') first_label = Inr z"
    and U: "sel (fld_U F) [(''XG'', Float64 lon), (''YC'', Float64 lat), (''Z'', z)] = Inr U_d"
    and V: "sel (fld_V F) [(''XC'', Float64 lon), (''YG'', Float64 lat), (''Z'', z)] = Inr V_d"
    and tU: "thermal_wind (-) U_d f By [(''XC'', Float64 lon), (''YG'', Float64 lat)] = Inr U_geo"
    and tV: "thermal_wind (+) V_d f Bx [(''XG'', Float64 lon), (''YC'', Float64 lat)] = Inr V_geo"
    by blast
  from al have a: "aligned (sum_dz_dTdx F) (sum_dz_dSdx F)" "aligned (sum_dz_dTdy F) (sum_dz_dSdy F)"
    "aligned U_d (sum_dz_dTdy F)" "aligned U_d (sum_dz_dSdy F)"
    "aligned V_d (sum_dz_dTdx F)" "aligned V_d (sum_dz_dSdx F)"
    unfolding fields_aligned_def using aligned_sel [OF _ U] aligned_sel [OF _ V] by simp_all
  from component_formula [OF tU By a(2,3,4)] component_formula [OF tV Bx a(1,5,6)] z U V
  show ?thesis unfolding geostrophic_def Let_def by (simp del: sel.simps) blast
qed

theorem no_expansion_gives_reference_witness:
  "fields_aligned example_fields
   \<and> map_option (\<lambda>(U, V). (shape U, item U [0, 0], item U [0, 1], item V [1, 1]))
        (returned (example_run 0 0 10 (1 / 2))) = Some ([2, 2], 1112, 1112, 1114)
   \<and> (\<exists>U_geo V_geo z U_d V_d i j i' j'.
         example_run 0 0 10 (1 / 2) = (example_store, Inr (U_geo, V_geo))
       \<and> sel (fld_U example_fields)
            [(''XG'', Float64 (53 / 5)), (''YC'', Float64 (- 296 / 5)), (''Z'', z)] = Inr U_d
       \<and> sel (fld_V example_fields)
            [(''XC'', Float64 (53 / 5)), (''YG'', Float64 (- 296 / 5)), (''Z'', z)] = Inr V_d
       \<and> (\<forall>ix. item U_geo ix
             = data U_d (at_point ''XC'' i ''YG'' j
                 (dims (combined U_d (sum_dz_dTdy example_fields) (sum_dz_dSdy example_fields))) ix))
       \<and> (\<forall>ix. item V_geo ix
             = data V_d (at_point ''XG'' i' ''YC'' j'
                 (dims (combined V_d (sum_dz_dTdx example_fields) (sum_dz_dSdx example_fields))) ix)))"
proof -
  obtain U V where r: "example_run 0 0 10 (1 / 2) = (example_store, Inr (U, V))"
    using example_returns [of "1 / 2" 0 0 10] by auto
  have f: "(1 / 2 :: real) \<noteq> 0" by simp
  from no_expansion_gives_reference [OF example_setup_eq [unfolded example_setup_def]
      r [unfolded example_run_def] example_aligned f]
  obtain z U_d V_d i j i' j' where
    "sel (fld_U example_fields)
            [(''XG'', Float64 (53 / 5)), (''YC'', Float64 (- 296 / 5)), (''Z'', z)] = Inr U_d"
    "sel (fld_V example_fields)
            [(''XC'', Float64 (53 / 5)), (''YG'', Float64 (- 296 / 5)), (''Z'', z)] = Inr V_d"
    "\<forall>ix. item U ix
             = data U_d (at_point ''XC'' i ''YG'' j
                 (dims (combined U_d (sum_dz_dTdy example_fields) (sum_dz_dSdy example_fields))) ix)"
    "\<forall>ix. item V ix
             = data V_d (at_point ''XG'' i' ''YC'' j'
                 (dims (combined V_d (sum_dz_dTdx example_fields) (sum_dz_dSdx example_fields))) ix)"
    by blast
  moreover have "map_option (\<lambda>(U, V). (shape U, item U [0, 0], item U [0, 1], item V [1, 1]))
        (returned (example_run 0 0 10 (1 / 2))) = Some ([2, 2], 1112, 1112, 1114)"
    using example_items [of "1 / 2" 0 0 10] by simp
  ultimately show ?thesis using r example_aligned by blast
qed

text \<open>
  Claim C6, as the code has it. Whether the solver returns or raises, the dataset object
  the caller passed is what it was before the call. When the solver returns, the store has
  one object more, the reindexed dataset the local name \<open>ds\<close> was bound to, and \<open>drW\<close>,
  \<open>drS\<close> and \<open>drC\<close> are fields of that object.
\<close>

theorem caller_dataset_unchanged:
  assumes "ds0 < length st"
    and "compute_geostrophic_velocities lib ds0 lat lon day_offset days zF \<alpha> \<beta> g f st = (st', r)"
  shows "st' ! ds0 = st ! ds0
       \<and> (\<forall>res. r = Inr res \<longrightarrow>
            (\<exists>d. st' = st @ [d] \<and> variables d ''drW'' \<noteq> None
                \<and> variables d ''drS'' \<noteq> None \<and> variables d ''drC'' \<noteq> None))"
proof -
  from framesD [OF frames_compute _ assms(2), of "length st"]
  have "take (length st) st' = st" "length st \<le> length st'"
    by simp_all
  then have "st' ! ds0 = st ! ds0"
    using assms(1) by (metis nth_take)
  moreover have "\<exists>d. st' = st @ [d] \<and> variables d ''drW'' \<noteq> None
                \<and> variables d ''drS'' \<noteq> None \<and> variables d ''drC'' \<noteq> None"
    if "r = Inr res" for res
  proof -
    from run_setup assms(2) that obtain F where
      "solver_setup lib ds0 day_offset days st = (st', Inr F)" by blast
    from setup_store [OF this] show ?thesis by simp
  qed
  ultimately show ?thesis by blast
qed

theorem caller_dataset_unchanged_witness:
  "(0 :: nat) < length [sose3d]
   \<and> fst (example_run 2 1 10 (1 / 2)) ! 0 = sose3d
   \<and> (\<exists>d. fst (example_run 2 1 10 (1 / 2)) = [sose3d, d] \<and> variables d ''drW'' \<noteq> None
         \<and> variables d ''drS'' \<noteq> None \<and> variables d ''drC'' \<noteq> None)"
proof -
  obtain U V where r: "example_run 2 1 10 (1 / 2) = (example_store, Inr (U, V))"
    using example_returns [of "1 / 2" 2 1 10] by auto
  have l: "(0 :: nat) < length [sose3d]" by simp
  from caller_dataset_unchanged [OF l r [unfolded example_run_def]] l
  show ?thesis unfolding example_run_def [symmetric] r by simp
qed

text \<open>
  Claim C6 as stated fails: in the example the solver returns, and the dataset the caller
  passed has none of the fields \<open>drW\<close>, \<open>drS\<close>, \<open>drC\<close> afterwards.
\<close>

theorem caller_dataset_mutated_counterexample:
  "returned (example_run 2 1 10 (1 / 2)) \<noteq> None
   \<and> variables (fst (example_run 2 1 10 (1 / 2)) ! 0) ''drW'' = None
   \<and> variables (fst (example_run 2 1 10 (1 / 2)) ! 0) ''drS'' = None
   \<and> variables (fst (example_run 2 1 10 (1 / 2)) ! 0) ''drC'' = None"
proof -
  obtain U V where r: "example_run 2 1 10 (1 / 2) = (example_store, Inr (U, V))"
    using example_returns [of "1 / 2" 2 1 10] by auto
  from framesD [OF frames_compute _ r [unfolded example_run_def], of 1]
  have "take 1 example_store = take 1 [sose3d]" by simp
  then have "take 1 example_store ! 0 = sose3d" by simp
  then have "example_store ! 0 = sose3d" by simp
  moreover have "variables sose3d ''drW'' = None" "variables sose3d ''drS'' = None"
    "variables sose3d ''drC'' = None"
    by (simp_all add: sose3d_def)
  ultimately show ?thesis using r by (simp add: returned_def)
qed

text \<open>
  Claim C7, as the code has it. With the Python number \<open>f = 0\<close> the solver never returns
  arrays: it raises. Wherever it returns for some \<open>f\<close>, the same call with \<open>f = 0\<close> raises
  \<open>ZeroDivisionError\<close>, from \<open>1/f\<close>, and leaves the store as the returning call does.
\<close>

theorem zero_coriolis_raises:
  "(\<exists>e. snd (compute_geostrophic_velocities lib ds0 lat lon day_offset days zF \<alpha> \<beta> g 0 st) = Inl e)
   \<and> (compute_geostrophic_velocities lib ds0 lat lon day_offset days zF \<alpha> \<beta> g f st = (st', Inr r)
        \<longrightarrow> compute_geostrophic_velocities lib ds0 lat lon day_offset days zF \<alpha> \<beta> g 0 st
            = (st', Inl ZeroDivisionError))"
proof (intro conjI impI)
  show "\<exists>e. snd (compute_geostrophic_velocities lib ds0 lat lon day_offset days zF \<alpha> \<beta> g 0 st) = Inl e"
  proof (cases "compute_geostrophic_velocities lib ds0 lat lon day_offset days zF \<alpha> \<beta> g 0 st")
    case (Pair s res)
    show ?thesis
    proof (cases res)
      case (Inl e)
      with Pair show ?thesis by simp
    next
      case (Inr p)
      obtain U V where p: "p = (U, V)" by (cases p)
      from run_setup Pair Inr obtain F where
        su: "solver_setup lib ds0 day_offset days st = (s, Inr F)" by blast
      from run_Inr [OF su Pair [unfolded Inr p]] obtain U_d By where
        "thermal_wind (-) U_d 0 By [(''XC'', Float64 lon), (''YG'', Float64 lat)] = Inr U"
        by blast
      then show ?thesis by (simp add: thermal_wind_def py_truediv_def)
    qed
  qed
next
  assume run: "compute_geostrophic_velocities lib ds0 lat lon day_offset days zF \<alpha> \<beta> g f st = (st', Inr r)"
  obtain U V where r: "r = (U, V)" by (cases r)
  from run_setup [OF run] obtain F where
    su: "solver_setup lib ds0 day_offset days st = (st', Inr F)" by blast
  from run_Inr [OF su run [unfolded r]] obtain Bx By z U_d V_d where
    "buoyancy_integral g \<alpha> \<beta> (sum_dz_dTdx F) (sum_dz_dSdx F) = Inr Bx"
    "buoyancy_integral g \<alpha> \<beta> (sum_dz_dTdy F) (sum_dz_dSdy F) = Inr By"
    "bindE (get_index (st' ! local_ds F) ''Z'') first_label = Inr z"
    "sel (fld_U F) [(''XG'', Float64 lon), (''YC'', Float64 lat), (''Z'', z)] = Inr U_d"
    "sel (fld_V F) [(''XC'', Float64 lon), (''YG'', Float64 lat), (''Z'', z)] = Inr V_d"
    by blast
  from run_zero [OF su this]
  show "compute_geostrophic_velocities lib ds0 lat lon day_offset days zF \<alpha> \<beta> g 0 st
        = (st', Inl ZeroDivisionError)" .
qed

theorem zero_coriolis_raises_witness:
  "returned (example_run 2 1 10 (1 / 2)) \<noteq> None
   \<and> example_run 2 1 10 0 = (example_store, Inl ZeroDivisionError)"
proof -
  obtain U V where r: "example_run 2 1 10 (1 / 2) = (example_store, Inr (U, V))"
    using example_returns [of "1 / 2" 2 1 10] by auto
  from zero_coriolis_raises [of difference_grid 0 "- 296 / 5" "53 / 5" 1 2 "[]" 2 1 10 "[sose3d]"
      "1 / 2" example_store "(U, V)"] r
  show ?thesis unfolding example_run_def by (simp add: returned_def)
qed

text \<open>
  Claim C7 as stated fails: in the example, the call with \<open>f = 0\<close> raises
  \<open>ZeroDivisionError\<close>.
\<close>

theorem zero_coriolis_counterexample:
  "raised (example_run 2 1 10 0) = Some ZeroDivisionError"
  unfolding example_run_def by (simp add: eval_shape raised_def)


end
